theory Spec2Isabelle
  imports Complex_Main
begin

section \<open>The shutdown daemon: data model\<close>

text \<open>
  The repository holds two revisions of the daemon: \<^verbatim>\<open>src/app.go\<close> and the revised
  copy of \<^verbatim>\<open>app.go\<close> embedded in \<^verbatim>\<open>src/unnamed/part_002\<close>. Functions of the first keep
  their source names; functions of the second carry the suffix \<open>_v2\<close>.
  \<^verbatim>\<open>fetchDevices\<close> is the same text in both and is modelled once.

  Time values are nanoseconds since the Unix epoch, durations are nanoseconds.
\<close>

type_synonym time = int
type_synonym duration = int

definition Second :: duration where "Second = 1000000000"
definition Minute :: duration where "Minute = 60 * Second"

definition ShutdownDelay :: duration where "ShutdownDelay = 5 * Second"
definition StatusUpdateInterval :: duration where "StatusUpdateInterval = 3 * Minute"
definition ShutdownPollInterval :: duration where "ShutdownPollInterval = 10 * Second"
definition MinUptimeBeforeShutdown :: duration where "MinUptimeBeforeShutdown = 1 * Minute"

text \<open>
  Go values of type \<^verbatim>\<open>interface{}\<close> as they occur in the program: what
  \<^verbatim>\<open>json.Unmarshal\<close> produces (nil, bool, float64, string, slices, maps) and what the
  program puts into request payloads (strings, \<^verbatim>\<open>time.Time\<close>, nested maps). A float64
  read from JSON is a finite number and is kept as its exact rational value.
\<close>

datatype val =
    VNil
  | VBool bool
  | VNum rat
  | VStr string
  | VTime time
  | VList "val list"
  | VMap "(string \<times> val) list"

text \<open>Go \<^verbatim>\<open>error\<close> values, one constructor per place that makes one.\<close>

datatype error =
    Transport string
  | FetchStatus nat string
  | CreateStatus nat string
  | PatchStatus nat string
  | Decode string
  | CheckExisting error
  | UpdateStatus error
  | TimeParse string
  | Command string

datatype http_method = GET | POST | PATCH

record request =
  Method :: http_method
  URL :: string
  Header :: "(string \<times> string) list"
  Body :: "val option"

record response =
  StatusCode :: nat
  resp_body :: string

record Device =
  ID :: string
  UserID :: string
  Name :: string
  Status :: string
  LastSeen :: "time option"
  FirstOnlineAt :: "time option"
  ShutdownRequest :: "val option"

text \<open>Lines written by \<^verbatim>\<open>log.Println\<close> and \<^verbatim>\<open>log.Printf\<close>, by call site.\<close>

datatype logmsg =
    LogFetchError error
  | LogNoRow string
  | LogCreateFailed error
  | LogCreated string
  | LogParseFailed error
  | LogPatchError error
  | LogCreateDevice error
  | LogPatchStatus nat string
  | LogPatchSucceeded string "(string \<times> val) list"
  | LogShuttingDown
  | LogExpiresParse error
  | LogTooRecent string
  | LogUnsupportedOS string
  | LogCommandFailed error string
  | LogCommandOk

text \<open>Everything the program does to the outside world, in the order it does it.\<close>

datatype event =
    Http request
  | Log logmsg
  | Sleep duration
  | AwaitTick duration
  | Exec "string list"

text \<open>
  The environment of a run. The registry is an arbitrary state machine: \<open>serve\<close> answers
  one request in a registry state with a transport error or a response, and gives the
  next registry state. The clock is the sequence of values that successive calls of
  \<^verbatim>\<open>time.Now()\<close> return. The remaining fields stand for library functions and the host:
  decoding a response body into \<^verbatim>\<open>[]Device\<close>, \<^verbatim>\<open>time.Parse(time.RFC3339, _)\<close>,
  \<^verbatim>\<open>Format(time.RFC3339)\<close>, \<^verbatim>\<open>runtime.GOOS\<close>, running a command (combined output and
  error), and the implementation-dependent result of converting a float64 outside the
  int64 range.
\<close>

record 'r env =
  supabaseURL :: string
  supabaseKey :: string
  authToken :: string
  serve :: "'r \<Rightarrow> request \<Rightarrow> (string + response) \<times> 'r"
  decode_devices :: "string \<Rightarrow> string + Device list"
  clock :: "nat \<Rightarrow> time"
  parse_rfc3339 :: "string \<Rightarrow> string + time"
  format_rfc3339 :: "time \<Rightarrow> string"
  goos :: string
  run_command :: "string list \<Rightarrow> string \<times> string option"
  int64_out_of_range :: "rat \<Rightarrow> int"

record 'r world =
  registry :: 'r
  ticks :: nat
  trace :: "event list"

section \<open>Library calls\<close>

definition emit :: "event \<Rightarrow> 'r world \<Rightarrow> 'r world" where
  "emit e w = w\<lparr>trace := trace w @ [e]\<rparr>"

definition time_Now :: "'r env \<Rightarrow> 'r world \<Rightarrow> time \<times> 'r world" where
  "time_Now env w = (clock env (ticks w), w\<lparr>ticks := Suc (ticks w)\<rparr>)"

definition time_Unix :: "time \<Rightarrow> int" where
  "time_Unix t = t div Second"

definition maxDuration :: duration where "maxDuration = 2 ^ 63 - 1"
definition minDuration :: duration where "minDuration = - (2 ^ 63)"

text \<open>\<^verbatim>\<open>t.Sub(u)\<close> saturates at the largest and smallest duration.\<close>

definition time_Sub :: "time \<Rightarrow> time \<Rightarrow> duration" where
  "time_Sub t u =
     (let d = t - u in
      if d > maxDuration then maxDuration
      else if d < minDuration then minDuration
      else d)"

definition time_Since :: "'r env \<Rightarrow> time \<Rightarrow> 'r world \<Rightarrow> duration \<times> 'r world" where
  "time_Since env t w = (case time_Now env w of (now, w1) \<Rightarrow> (time_Sub now t, w1))"

text \<open>The conversion \<^verbatim>\<open>int64(exp)\<close> of a float64: truncation toward zero.\<close>

definition int64_of_float64 :: "'r env \<Rightarrow> rat \<Rightarrow> int" where
  "int64_of_float64 env x =
     (if x < - (2 ^ 63) \<or> 2 ^ 63 \<le> x then int64_out_of_range env x
      else if x < 0 then \<lceil>x\<rceil> else \<lfloor>x\<rfloor>)"

text \<open>\<^verbatim>\<open>httpClient.Do(req)\<close>: the request goes out, the registry moves on.\<close>

definition http_Do :: "'r env \<Rightarrow> request \<Rightarrow> 'r world \<Rightarrow> (error + response) \<times> 'r world" where
  "http_Do env rq w =
     (case serve env (registry w) rq of
        (res, r') \<Rightarrow>
          ((case res of Inl m \<Rightarrow> Inl (Transport m) | Inr resp \<Rightarrow> Inr resp),
           emit (Http rq) (w\<lparr>registry := r'\<rparr>)))"

text \<open>
  \<^verbatim>\<open>json.Unmarshal(raw, &req)\<close> with \<^verbatim>\<open>req map[string]interface{}\<close>: an object gives
  its map (a repeated key keeps the last value), \<^verbatim>\<open>null\<close> gives the nil map without
  an error, every other value is a type error.
\<close>

definition json_Unmarshal_map :: "val \<Rightarrow> error + (string \<rightharpoonup> val)" where
  "json_Unmarshal_map raw =
     (case raw of
        VMap kvs \<Rightarrow> Inr (map_of (rev kvs))
      | VNil \<Rightarrow> Inr Map.empty
      | _ \<Rightarrow> Inl (Decode ''json: cannot unmarshal into Go value of type map[string]interface {}''))"

text \<open>The type assertions \<^verbatim>\<open>v.(string)\<close> and \<^verbatim>\<open>v.(float64)\<close> in their comma-ok form.\<close>

definition as_string :: "val option \<Rightarrow> string option" where
  "as_string v = (case v of Some (VStr s) \<Rightarrow> Some s | _ \<Rightarrow> None)"

definition as_float64 :: "val option \<Rightarrow> rat option" where
  "as_float64 v = (case v of Some (VNum x) \<Rightarrow> Some x | _ \<Rightarrow> None)"

section \<open>Registry client (both revisions)\<close>

definition devices_url :: "'r env \<Rightarrow> string \<Rightarrow> string \<Rightarrow> string" where
  "devices_url env userID name =
     supabaseURL env @ ''/rest/v1/devices?user_id=eq.'' @ userID @ ''&name=eq.'' @ name"

definition fetch_request :: "'r env \<Rightarrow> string \<Rightarrow> string \<Rightarrow> request" where
  "fetch_request env userID name =
     \<lparr>Method = GET,
      URL = devices_url env userID name @ ''&select=*'',
      Header = [(''apikey'', supabaseKey env),
                 (''Authorization'', ''Bearer '' @ authToken env)],
      Body = None\<rparr>"

definition fetchDevices ::
  "'r env \<Rightarrow> string \<Rightarrow> string \<Rightarrow> 'r world \<Rightarrow> (error + Device list) \<times> 'r world" where
  "fetchDevices env userID name w =
     (case http_Do env (fetch_request env userID name) w of
        (Inl err, w1) \<Rightarrow> (Inl err, w1)
      | (Inr resp, w1) \<Rightarrow>
          if StatusCode resp \<noteq> 200
          then (Inl (FetchStatus (StatusCode resp) (resp_body resp)), w1)
          else (case decode_devices env (resp_body resp) of
                  Inl m \<Rightarrow> (Inl (Decode m), w1)
                | Inr dl \<Rightarrow> (Inr dl, w1)))"

definition patch_request ::
  "'r env \<Rightarrow> string \<Rightarrow> string \<Rightarrow> (string \<times> val) list \<Rightarrow> request" where
  "patch_request env userID name data =
     \<lparr>Method = PATCH,
      URL = devices_url env userID name,
      Header = [(''apikey'', supabaseKey env),
                 (''Authorization'', ''Bearer '' @ authToken env),
                 (''Content-Type'', ''application/json''),
                 (''Prefer'', ''return=minimal'')],
      Body = Some (VMap data)\<rparr>"

section \<open>Revision \<^verbatim>\<open>src/app.go\<close>\<close>

definition create_request :: "'r env \<Rightarrow> string \<Rightarrow> string \<Rightarrow> time \<Rightarrow> time \<Rightarrow> request" where
  "create_request env userID name t1 t2 =
     \<lparr>Method = POST,
      URL = supabaseURL env @ ''/rest/v1/devices'',
      Header = [(''apikey'', supabaseKey env),
                 (''Authorization'', ''Bearer '' @ authToken env),
                 (''Content-Type'', ''application/json''),
                 (''Prefer'', ''resolution=merge-duplicates'')],
      Body = Some (VList [VMap
        [(''user_id'', VStr userID),
         (''name'', VStr name),
         (''status'', VStr ''unknown''),
         (''first_online_at'', VTime t1),
         (''last_seen'', VTime t2)]])\<rparr>"

definition createDevice ::
  "'r env \<Rightarrow> string \<Rightarrow> string \<Rightarrow> 'r world \<Rightarrow> error option \<times> 'r world" where
  "createDevice env userID name w =
     (case time_Now env w of (t1, w1) \<Rightarrow>
     (case time_Now env w1 of (t2, w2) \<Rightarrow>
     (case http_Do env (create_request env userID name t1 t2) w2 of
        (Inl err, w3) \<Rightarrow> (Some err, w3)
      | (Inr resp, w3) \<Rightarrow>
          if StatusCode resp \<ge> 300
          then (Some (CreateStatus (StatusCode resp) (resp_body resp)), w3)
          else (None, w3))))"

text \<open>
  \<^verbatim>\<open>patchDevice\<close> calls itself after a 404 with nothing that bounds the recursion, so
  it is a partial function: \<open>None\<close> is a call that does not return.
\<close>

partial_function (option) patchDevice ::
  "'r env \<Rightarrow> string \<Rightarrow> string \<Rightarrow> (string \<times> val) list \<Rightarrow> 'r world \<Rightarrow> 'r world option" where
  "patchDevice env userID name data w =
     (case http_Do env (patch_request env userID name data) w of
        (Inl err, w1) \<Rightarrow> Some (emit (Log (LogPatchError err)) w1)
      | (Inr resp, w1) \<Rightarrow>
          if StatusCode resp = 404 then
            (case fetchDevices env userID name w1 of
               (res, w2) \<Rightarrow>
                 if length (case res of Inl _ \<Rightarrow> [] | Inr devices \<Rightarrow> devices) = 0 then
                   (case createDevice env userID name w2 of
                      (Some err, w3) \<Rightarrow> Some (emit (Log (LogCreateDevice err)) w3)
                    | (None, w3) \<Rightarrow> patchDevice env userID name data w3)
                 else patchDevice env userID name data w2)
          else if StatusCode resp \<ge> 300
          then Some (emit (Log (LogPatchStatus (StatusCode resp) (resp_body resp))) w1)
          else Some (emit (Log (LogPatchSucceeded name data)) w1))"

definition expired_payload :: "(string \<times> val) list" where
  "expired_payload = [(''shutdown_requested'', VMap [(''status'', VStr ''expired'')])]"

definition done_payload :: "(string \<times> val) list" where
  "done_payload = [(''shutdown_requested'', VMap [(''status'', VStr ''done'')])]"

text \<open>
  The two guards of \<^verbatim>\<open>handleShutdown\<close>, each with the clock reads it makes: the
  clock is read for the deadline only when \<^verbatim>\<open>expires_at\<close> is a float64, and for the
  uptime only when \<^verbatim>\<open>FirstOnlineAt\<close> is not nil.
\<close>

definition deadline_passed ::
  "'r env \<Rightarrow> (string \<rightharpoonup> val) \<Rightarrow> 'r world \<Rightarrow> bool \<times> 'r world" where
  "deadline_passed env req w =
     (case as_float64 (req ''expires_at'') of
        Some expires \<Rightarrow>
          (case time_Now env w of
             (now, w1) \<Rightarrow> (time_Unix now > int64_of_float64 env expires, w1))
      | None \<Rightarrow> (False, w))"

definition too_recent :: "'r env \<Rightarrow> Device \<Rightarrow> 'r world \<Rightarrow> bool \<times> 'r world" where
  "too_recent env dev w =
     (case FirstOnlineAt dev of
        Some t \<Rightarrow>
          (case time_Since env t w of (d, w1) \<Rightarrow> (d < MinUptimeBeforeShutdown, w1))
      | None \<Rightarrow> (False, w))"

definition handleShutdown ::
  "'r env \<Rightarrow> string \<Rightarrow> string \<Rightarrow> Device \<Rightarrow> (string \<rightharpoonup> val) \<Rightarrow> 'r world
     \<Rightarrow> 'r world option" where
  "handleShutdown env userID name dev req w =
     (case deadline_passed env req w of
        (True, w1) \<Rightarrow> patchDevice env userID name expired_payload w1
      | (False, w1) \<Rightarrow>
          (case too_recent env dev w1 of
             (True, w2) \<Rightarrow> Some w2
           | (False, w2) \<Rightarrow>
               (case patchDevice env userID name done_payload w2 of
                  None \<Rightarrow> None
                | Some w3 \<Rightarrow>
                    Some (emit (Exec [''shutdown'', ''now''])
                           (emit (Sleep ShutdownDelay)
                             (emit (Log LogShuttingDown) w3))))))"

text \<open>
  One pass through the body of the endless loop of \<^verbatim>\<open>updateDeviceStatus\<close>, and the
  first \<open>k\<close> passes of the loop. The map literal reads the clock twice, first for
  \<^verbatim>\<open>last_seen\<close>.
\<close>

definition updateDeviceStatus_pass ::
  "'r env \<Rightarrow> string \<Rightarrow> string \<Rightarrow> 'r world \<Rightarrow> 'r world option" where
  "updateDeviceStatus_pass env userID name w =
     (case time_Now env w of (t1, w1) \<Rightarrow>
     (case time_Now env w1 of (t2, w2) \<Rightarrow>
     (case patchDevice env userID name
             [(''status'', VStr ''on''),
              (''last_seen'', VTime t1),
              (''first_online_at'', VTime t2)] w2 of
        None \<Rightarrow> None
      | Some w3 \<Rightarrow> Some (emit (AwaitTick StatusUpdateInterval) w3))))"

fun updateDeviceStatus ::
  "nat \<Rightarrow> 'r env \<Rightarrow> string \<Rightarrow> string \<Rightarrow> 'r world \<Rightarrow> 'r world option" where
  "updateDeviceStatus 0 env userID name w = Some w"
| "updateDeviceStatus (Suc k) env userID name w =
     (case updateDeviceStatus_pass env userID name w of
        None \<Rightarrow> None
      | Some w1 \<Rightarrow> updateDeviceStatus k env userID name w1)"

text \<open>
  One pass through the body of the endless loop of \<^verbatim>\<open>listenForShutdownRequests\<close>, and
  the first \<open>k\<close> passes. A failed type assertion \<^verbatim>\<open>req["status"].(string)\<close> leaves the
  empty string.
\<close>

definition status_of :: "(string \<rightharpoonup> val) \<Rightarrow> string" where
  "status_of req = (case as_string (req ''status'') of Some s \<Rightarrow> s | None \<Rightarrow> [])"

definition listen_pass ::
  "'r env \<Rightarrow> string \<Rightarrow> string \<Rightarrow> 'r world \<Rightarrow> 'r world option" where
  "listen_pass env userID name w =
     (case fetchDevices env userID name w of
        (Inl err, w1) \<Rightarrow>
          Some (emit (Sleep ShutdownPollInterval) (emit (Log (LogFetchError err)) w1))
      | (Inr devices, w1) \<Rightarrow>
          (case devices of
             [] \<Rightarrow>
               (case createDevice env userID name (emit (Log (LogNoRow name)) w1) of
                  (Some err, w2) \<Rightarrow>
                    Some (emit (Sleep ShutdownPollInterval)
                           (emit (Log (LogCreateFailed err)) w2))
                | (None, w2) \<Rightarrow>
                    Some (emit (Sleep ShutdownPollInterval)
                           (emit (Log (LogCreated name)) w2)))
           | device # _ \<Rightarrow>
               (case (case ShutdownRequest device of
                        None \<Rightarrow> Some w1
                      | Some raw \<Rightarrow>
                          (case json_Unmarshal_map raw of
                             Inl err \<Rightarrow> Some (emit (Log (LogParseFailed err)) w1)
                           | Inr req \<Rightarrow>
                               if status_of req = ''pending''
                               then handleShutdown env userID name device req w1
                               else Some w1)) of
                  None \<Rightarrow> None
                | Some w2 \<Rightarrow> Some (emit (Sleep ShutdownPollInterval) w2))))"

fun listenForShutdownRequests ::
  "nat \<Rightarrow> 'r env \<Rightarrow> string \<Rightarrow> string \<Rightarrow> 'r world \<Rightarrow> 'r world option" where
  "listenForShutdownRequests 0 env userID name w = Some w"
| "listenForShutdownRequests (Suc k) env userID name w =
     (case listen_pass env userID name w of
        None \<Rightarrow> None
      | Some w1 \<Rightarrow> listenForShutdownRequests k env userID name w1)"

section \<open>Revision \<^verbatim>\<open>src/unnamed/part_002\<close>\<close>

definition create_request_v2 ::
  "'r env \<Rightarrow> string \<Rightarrow> string \<Rightarrow> string \<Rightarrow> string \<Rightarrow> request" where
  "create_request_v2 env userID name s1 s2 =
     \<lparr>Method = POST,
      URL = supabaseURL env @ ''/rest/v1/devices'',
      Header = [(''apikey'', supabaseKey env),
                 (''Authorization'', ''Bearer '' @ authToken env),
                 (''Content-Type'', ''application/json''),
                 (''Prefer'', ''return=minimal'')],
      Body = Some (VMap
        [(''user_id'', VStr userID),
         (''name'', VStr name),
         (''status'', VStr ''unknown''),
         (''first_online_at'', VStr s1),
         (''last_seen'', VStr s2)])\<rparr>"

definition createDevice_v2 ::
  "'r env \<Rightarrow> string \<Rightarrow> string \<Rightarrow> 'r world \<Rightarrow> error option \<times> 'r world" where
  "createDevice_v2 env userID name w =
     (case fetchDevices env userID name w of
        (Inl err, w1) \<Rightarrow> (Some (CheckExisting err), w1)
      | (Inr devices, w1) \<Rightarrow>
          if length devices > 0 then (None, w1)
          else
            (case time_Now env w1 of (t1, w2) \<Rightarrow>
            (case time_Now env w2 of (t2, w3) \<Rightarrow>
            (case http_Do env
                    (create_request_v2 env userID name
                       (format_rfc3339 env t1) (format_rfc3339 env t2)) w3 of
               (Inl err, w4) \<Rightarrow> (Some err, w4)
             | (Inr resp, w4) \<Rightarrow>
                 if StatusCode resp \<ge> 300
                 then (Some (CreateStatus (StatusCode resp) (resp_body resp)), w4)
                 else (None, w4)))))"

text \<open>
  \<^verbatim>\<open>patchDevice\<close> of this revision returns an error. After a 404 it calls itself,
  drops what the inner call returns and returns nil.
\<close>

partial_function (option) patchDevice_v2 ::
  "'r env \<Rightarrow> string \<Rightarrow> string \<Rightarrow> (string \<times> val) list \<Rightarrow> 'r world
     \<Rightarrow> (error option \<times> 'r world) option" where
  "patchDevice_v2 env userID name data w =
     (case http_Do env (patch_request env userID name data) w of
        (Inl err, w1) \<Rightarrow> Some (Some err, emit (Log (LogPatchError err)) w1)
      | (Inr resp, w1) \<Rightarrow>
          if StatusCode resp = 404 then
            (case fetchDevices env userID name w1 of
               (res, w2) \<Rightarrow>
                 if length (case res of Inl _ \<Rightarrow> [] | Inr devices \<Rightarrow> devices) = 0 then
                   (case createDevice_v2 env userID name w2 of
                      (Some err, w3) \<Rightarrow> Some (Some err, emit (Log (LogCreateDevice err)) w3)
                    | (None, w3) \<Rightarrow>
                        Option.bind (patchDevice_v2 env userID name data w3)
                          (\<lambda>r. Some (None, snd r)))
                 else
                   Option.bind (patchDevice_v2 env userID name data w2)
                     (\<lambda>r. Some (None, snd r)))
          else if StatusCode resp \<ge> 300
          then Some (Some (PatchStatus (StatusCode resp) (resp_body resp)), w1)
          else Some (None, emit (Log (LogPatchSucceeded name data)) w1))"

definition shutting_down_payload :: "string \<Rightarrow> (string \<times> val) list" where
  "shutting_down_payload now =
     [(''shutdown_requested'', VMap [(''status'', VStr ''shutting_down'')]),
      (''status'', VStr ''off''),
      (''last_seen'', VStr now)]"

definition failed_payload :: "string \<Rightarrow> (string \<times> val) list" where
  "failed_payload msg =
     [(''shutdown_requested'', VMap [(''status'', VStr ''failed''), (''error'', VStr msg)])]"

definition done_payload_v2 :: "(string \<times> val) list" where
  "done_payload_v2 =
     [(''shutdown_requested'', VMap [(''status'', VStr ''done'')]),
      (''status'', VStr ''off'')]"

text \<open>The \<^verbatim>\<open>switch\<close> on \<^verbatim>\<open>runtime.GOOS\<close>; \<open>None\<close> is its \<^verbatim>\<open>default\<close> branch.\<close>

definition shutdown_command :: "string \<Rightarrow> string list option" where
  "shutdown_command os =
     (if os = ''windows'' then Some [''shutdown'', ''/s'', ''/t'', ''0'']
      else if os = ''linux'' then Some [''systemctl'', ''poweroff'']
      else if os = ''darwin'' then
        Some [''osascript'', ''-e'',
              ''tell application '' @ [CHR 0x22] @ ''System Events'' @ [CHR 0x22]
                @ '' to shut down'']
      else None)"

text \<open>
  The deadline of this revision is read only from a string \<^verbatim>\<open>expires_at\<close>: \<open>Inl\<close> when
  \<^verbatim>\<open>time.Parse\<close> rejects it, otherwise whether the clock is after it.
\<close>

definition deadline_v2 ::
  "'r env \<Rightarrow> (string \<rightharpoonup> val) \<Rightarrow> 'r world \<Rightarrow> (error + bool) \<times> 'r world" where
  "deadline_v2 env req w =
     (case as_string (req ''expires_at'') of
        Some expiresStr \<Rightarrow>
          (case parse_rfc3339 env expiresStr of
             Inl msg \<Rightarrow> (Inl (TimeParse msg), w)
           | Inr expiresAt \<Rightarrow>
               (case time_Now env w of (now, w1) \<Rightarrow> (Inr (now > expiresAt), w1)))
      | None \<Rightarrow> (Inr False, w))"

text \<open>
  The part of \<^verbatim>\<open>handleShutdown\<close> after the two guards. Every error that
  \<^verbatim>\<open>patchDevice\<close> returns is dropped.
\<close>

definition execute_v2 ::
  "'r env \<Rightarrow> string \<Rightarrow> string \<Rightarrow> 'r world \<Rightarrow> 'r world option" where
  "execute_v2 env userID name w =
     (case time_Now env (emit (Log LogShuttingDown) w) of
        (now, w1) \<Rightarrow>
          (case patchDevice_v2 env userID name
                  (shutting_down_payload (format_rfc3339 env now)) w1 of
             None \<Rightarrow> None
           | Some (_, w2) \<Rightarrow>
               (let w3 = emit (Sleep ShutdownDelay) w2 in
                case shutdown_command (goos env) of
                  None \<Rightarrow> Some (emit (Log (LogUnsupportedOS (goos env))) w3)
                | Some cmd \<Rightarrow>
                    (case run_command env cmd of
                       (out, Some msg) \<Rightarrow>
                         (case patchDevice_v2 env userID name (failed_payload msg)
                                 (emit (Log (LogCommandFailed (Command msg) out))
                                   (emit (Exec cmd) w3)) of
                            None \<Rightarrow> None
                          | Some (_, w4) \<Rightarrow> Some w4)
                     | (out, None) \<Rightarrow>
                         (case patchDevice_v2 env userID name done_payload_v2
                                 (emit (Exec cmd) w3) of
                            None \<Rightarrow> None
                          | Some (_, w4) \<Rightarrow> Some (emit (Log LogCommandOk) w4))))))"

definition handleShutdown_v2 ::
  "'r env \<Rightarrow> string \<Rightarrow> string \<Rightarrow> Device \<Rightarrow> (string \<rightharpoonup> val) \<Rightarrow> 'r world
     \<Rightarrow> 'r world option" where
  "handleShutdown_v2 env userID name dev req w =
     (case deadline_v2 env req w of
        (Inl err, w1) \<Rightarrow> Some (emit (Log (LogExpiresParse err)) w1)
      | (Inr True, w1) \<Rightarrow>
          (case patchDevice_v2 env userID name expired_payload w1 of
             None \<Rightarrow> None
           | Some (_, w2) \<Rightarrow> Some w2)
      | (Inr False, w1) \<Rightarrow>
          (case too_recent env dev w1 of
             (True, w2) \<Rightarrow> Some (emit (Log (LogTooRecent name)) w2)
           | (False, w2) \<Rightarrow> execute_v2 env userID name w2))"

definition updateDeviceStatus_pass_v2 ::
  "'r env \<Rightarrow> string \<Rightarrow> string \<Rightarrow> 'r world \<Rightarrow> (error option \<times> 'r world) option" where
  "updateDeviceStatus_pass_v2 env userID name w =
     (case time_Now env w of
        (t, w1) \<Rightarrow>
          (case patchDevice_v2 env userID name
                  [(''status'', VStr ''on''),
                   (''last_seen'', VStr (format_rfc3339 env t)),
                   (''first_online_at'', VStr (format_rfc3339 env t))] w1 of
             None \<Rightarrow> None
           | Some (Some err, w2) \<Rightarrow> Some (Some (UpdateStatus err), w2)
           | Some (None, w2) \<Rightarrow> Some (None, emit (AwaitTick StatusUpdateInterval) w2)))"

fun updateDeviceStatus_v2 ::
  "nat \<Rightarrow> 'r env \<Rightarrow> string \<Rightarrow> string \<Rightarrow> 'r world \<Rightarrow> (error option \<times> 'r world) option" where
  "updateDeviceStatus_v2 0 env userID name w = Some (None, w)"
| "updateDeviceStatus_v2 (Suc k) env userID name w =
     (case updateDeviceStatus_pass_v2 env userID name w of
        None \<Rightarrow> None
      | Some (Some err, w1) \<Rightarrow> Some (Some err, w1)
      | Some (None, w1) \<Rightarrow> updateDeviceStatus_v2 k env userID name w1)"

definition listen_pass_v2 ::
  "'r env \<Rightarrow> string \<Rightarrow> string \<Rightarrow> 'r world \<Rightarrow> 'r world option" where
  "listen_pass_v2 env userID name w =
     (case fetchDevices env userID name w of
        (Inl err, w1) \<Rightarrow>
          Some (emit (Sleep ShutdownPollInterval) (emit (Log (LogFetchError err)) w1))
      | (Inr devices, w1) \<Rightarrow>
          (case devices of
             [] \<Rightarrow>
               (case createDevice_v2 env userID name (emit (Log (LogNoRow name)) w1) of
                  (Some err, w2) \<Rightarrow>
                    Some (emit (Sleep ShutdownPollInterval)
                           (emit (Log (LogCreateFailed err)) w2))
                | (None, w2) \<Rightarrow>
                    Some (emit (Sleep ShutdownPollInterval)
                           (emit (Log (LogCreated name)) w2)))
           | device # _ \<Rightarrow>
               (case (case ShutdownRequest device of
                        None \<Rightarrow> Some w1
                      | Some raw \<Rightarrow>
                          (case json_Unmarshal_map raw of
                             Inl err \<Rightarrow> Some (emit (Log (LogParseFailed err)) w1)
                           | Inr req \<Rightarrow>
                               if status_of req = ''pending''
                               then handleShutdown_v2 env userID name device req w1
                               else Some w1)) of
                  None \<Rightarrow> None
                | Some w2 \<Rightarrow> Some (emit (Sleep ShutdownPollInterval) w2))))"

fun listenForShutdownRequests_v2 ::
  "nat \<Rightarrow> 'r env \<Rightarrow> string \<Rightarrow> string \<Rightarrow> 'r world \<Rightarrow> 'r world option" where
  "listenForShutdownRequests_v2 0 env userID name w = Some w"
| "listenForShutdownRequests_v2 (Suc k) env userID name w =
     (case listen_pass_v2 env userID name w of
        None \<Rightarrow> None
      | Some w1 \<Rightarrow> listenForShutdownRequests_v2 k env userID name w1)"

section \<open>Reading a run\<close>

text \<open>
  The events a run added to the trace (a run only ever extends it), and their outline:
  the log lines and the GET and POST requests of the registry client are left out, and
  a PATCH that the 404 recovery of \<^verbatim>\<open>patchDevice\<close> sends again counts once. Nothing
  else is merged: a sleep or a command that happened twice shows twice.
\<close>

definition since :: "'r world \<Rightarrow> 'r world \<Rightarrow> event list" where
  "since w w' = drop (length (trace w)) (trace w')"

definition extends :: "'r world \<Rightarrow> 'r world \<Rightarrow> bool" where
  "extends w w' = (\<exists>evs. trace w' = trace w @ evs)"

definition visible :: "event \<Rightarrow> bool" where
  "visible e = (case e of Http rq \<Rightarrow> Method rq = PATCH | Log _ \<Rightarrow> False | _ \<Rightarrow> True)"

fun merge_resent :: "event list \<Rightarrow> event list" where
  "merge_resent (Http a # Http b # evs) =
     (if a = b then merge_resent (Http b # evs) else Http a # merge_resent (Http b # evs))"
| "merge_resent (e # evs) = e # merge_resent evs"
| "merge_resent [] = []"

definition outline :: "event list \<Rightarrow> event list" where
  "outline evs = merge_resent (filter visible evs)"

definition repeats :: "event \<Rightarrow> event list \<Rightarrow> bool" where
  "repeats p evs = (\<exists>k. filter visible evs = replicate (Suc k) p)"

text \<open>The registry never answers a PATCH with 404 Not Found.\<close>

definition patch_found :: "'r env \<Rightarrow> bool" where
  "patch_found env =
     (\<forall>r rq resp r'. Method rq = PATCH \<longrightarrow> serve env r rq = (Inr resp, r') \<longrightarrow>
        StatusCode resp \<noteq> 404)"

text \<open>The registry answers every PATCH with 404 Not Found.\<close>

definition patch_never_found :: "'r env \<Rightarrow> bool" where
  "patch_never_found env =
     (\<forall>r rq. Method rq = PATCH \<longrightarrow>
        (\<exists>resp r'. serve env r rq = (Inr resp, r') \<and> StatusCode resp = 404))"

text \<open>
  The recovery inside \<^verbatim>\<open>patchDevice\<close> gets through in every state: the fetch finds a
  row, or the create returns nil.
\<close>

definition recovery_succeeds :: "'r env \<Rightarrow> string \<Rightarrow> string \<Rightarrow> bool" where
  "recovery_succeeds env userID name =
     (\<forall>w. case fetchDevices env userID name w of
             (Inr (d # ds), w1) \<Rightarrow> True
           | (_, w1) \<Rightarrow> fst (createDevice env userID name w1) = None)"

definition recovery_succeeds_v2 :: "'r env \<Rightarrow> string \<Rightarrow> string \<Rightarrow> bool" where
  "recovery_succeeds_v2 env userID name =
     (\<forall>w. case fetchDevices env userID name w of
             (Inr (d # ds), w1) \<Rightarrow> True
           | (_, w1) \<Rightarrow> fst (createDevice_v2 env userID name w1) = None)"

text \<open>
  The state that a PATCH writes into \<^verbatim>\<open>shutdown_requested\<close>, the states a run wrote,
  and the transitions that the specification lists for the request.
\<close>

definition written_state :: "event \<Rightarrow> string option" where
  "written_state e =
     (case e of
        Http rq \<Rightarrow>
          (case Body rq of
             Some (VMap data) \<Rightarrow>
               (case map_of data ''shutdown_requested'' of
                  Some (VMap sr) \<Rightarrow> as_string (map_of sr ''status'')
                | _ \<Rightarrow> None)
           | _ \<Rightarrow> None)
      | _ \<Rightarrow> None)"

definition state_writes :: "event list \<Rightarrow> string list" where
  "state_writes evs = List.map_filter written_state (outline evs)"

definition listed_transition :: "string \<Rightarrow> string \<Rightarrow> bool" where
  "listed_transition a b =
     ((a = ''pending'' \<and> (b = ''expired'' \<or> b = ''shutting_down'')) \<or>
      (a = ''shutting_down'' \<and> (b = ''done'' \<or> b = ''failed'')))"

fun follows_transitions :: "string \<Rightarrow> string list \<Rightarrow> bool" where
  "follows_transitions s [] = True"
| "follows_transitions s (x # xs) = (listed_transition s x \<and> follows_transitions x xs)"

section \<open>A concrete environment\<close>

text \<open>
  A registry that counts the requests it has served and answers 200 to a GET, 201 to a
  POST and 204 to a PATCH; a clock that starts at 2023-11-14T22:13:20Z and advances one
  nanosecond per reading; a Linux host whose power-off command succeeds. The variants
  below change one field each.
\<close>

definition demo_parse :: "string \<Rightarrow> string + time" where
  "demo_parse s =
     (if s = ''2020-01-01T00:00:00Z'' then Inr (1577836800 * Second)
      else if s = ''2030-01-01T00:00:00Z'' then Inr (1893456000 * Second)
      else Inl ''cannot parse'')"

definition demo_serve :: "nat \<Rightarrow> nat \<Rightarrow> nat \<Rightarrow> request \<Rightarrow> (string + response) \<times> nat" where
  "demo_serve post patch r rq =
     (Inr \<lparr>StatusCode = (case Method rq of GET \<Rightarrow> 200 | POST \<Rightarrow> post | PATCH \<Rightarrow> patch),
           resp_body = []\<rparr>,
      Suc r)"

definition demo_env :: "nat env" where
  "demo_env =
     \<lparr>supabaseURL = ''https://db.example'',
      supabaseKey = ''key'',
      authToken = ''token'',
      serve = demo_serve 201 204,
      decode_devices = (\<lambda>s. Inr []),
      clock = (\<lambda>k. 1700000000 * Second + int k),
      parse_rfc3339 = demo_parse,
      format_rfc3339 = (\<lambda>t. ''2023-11-14T22:13:20Z''),
      goos = ''linux'',
      run_command = (\<lambda>cmd. ([], None)),
      int64_out_of_range = (\<lambda>x. - (2 ^ 63))\<rparr>"

definition demo_world :: "nat world" where
  "demo_world = \<lparr>registry = 0, ticks = 0, trace = []\<rparr>"

definition demo_device :: Device where
  "demo_device =
     \<lparr>ID = ''d1'', UserID = ''u1'', Name = ''laptop-7'', Status = ''on'',
      LastSeen = None, FirstOnlineAt = None, ShutdownRequest = None\<rparr>"

text \<open>The same device ten seconds after it was first seen online.\<close>

definition demo_device_fresh :: Device where
  "demo_device_fresh = demo_device\<lparr>FirstOnlineAt := Some (1699999990 * Second)\<rparr>"

text \<open>
  Pending requests: without a deadline, and with the deadline 2020-01-01T00:00:00Z
  as an RFC 3339 string and as a number of Unix seconds.
\<close>

definition demo_request :: "string \<rightharpoonup> val" where
  "demo_request = map_of [(''status'', VStr ''pending'')]"

definition demo_request_string :: "string \<rightharpoonup> val" where
  "demo_request_string =
     map_of [(''status'', VStr ''pending''), (''expires_at'', VStr ''2020-01-01T00:00:00Z'')]"

definition demo_request_number :: "string \<rightharpoonup> val" where
  "demo_request_number =
     map_of [(''status'', VStr ''pending''), (''expires_at'', VNum 1577836800)]"

text \<open>The registry returns one row whose \<^verbatim>\<open>shutdown_requested\<close> is a JSON string.\<close>

definition demo_env_malformed :: "nat env" where
  "demo_env_malformed =
     demo_env\<lparr>decode_devices :=
       (\<lambda>s. Inr [demo_device\<lparr>ShutdownRequest := Some (VStr ''pending'')\<rparr>])\<rparr>"

text \<open>The registry answers every PATCH with 404; a POST succeeds, or is refused with 500.\<close>

definition demo_env_404 :: "nat env" where
  "demo_env_404 = demo_env\<lparr>serve := demo_serve 201 404\<rparr>"

definition demo_env_refused :: "nat env" where
  "demo_env_refused = demo_env\<lparr>serve := demo_serve 500 404\<rparr>"

text \<open>The registry answers a POST with 409 Conflict.\<close>

definition demo_env_conflict :: "nat env" where
  "demo_env_conflict = demo_env\<lparr>serve := demo_serve 409 204\<rparr>"

text \<open>A host of another operating system, and one whose power-off command fails.\<close>

definition demo_env_freebsd :: "nat env" where
  "demo_env_freebsd = demo_env\<lparr>goos := ''freebsd''\<rparr>"

definition demo_env_failing :: "nat env" where
  "demo_env_failing =
     demo_env\<lparr>run_command := (\<lambda>cmd. (''access denied'', Some ''exit status 1''))\<rparr>"

section \<open>Traces of the registry client\<close>

lemma trace_emit [simp]: "trace (emit e w) = trace w @ [e]"
  by (simp add: emit_def)

lemma http_Do_trace: "http_Do env rq w = (res, w1) \<Longrightarrow> trace w1 = trace w @ [Http rq]"
  by (auto simp: http_Do_def split: prod.splits)

lemma fetchDevices_trace:
  "fetchDevices env u n w = (res, w1) \<Longrightarrow> trace w1 = trace w @ [Http (fetch_request env u n)]"
  by (auto simp: fetchDevices_def split: prod.splits sum.splits if_splits dest: http_Do_trace)

lemma time_Now_trace: "time_Now env w = (t, w1) \<Longrightarrow> trace w1 = trace w"
  by (auto simp: time_Now_def)

lemma createDevice_trace:
  "createDevice env u n w = (res, w1) \<Longrightarrow> \<exists>rq. Method rq = POST \<and> trace w1 = trace w @ [Http rq]"
  by (auto simp: createDevice_def create_request_def
      split: prod.splits sum.splits if_splits dest!: http_Do_trace time_Now_trace)

lemma createDevice_v2_trace:
  "createDevice_v2 env u n w = (res, w1) \<Longrightarrow>
     \<exists>evs. trace w1 = trace w @ evs \<and> filter visible evs = []"
  by (auto simp: createDevice_v2_def visible_def fetch_request_def create_request_v2_def
      split: prod.splits sum.splits if_splits
      dest!: http_Do_trace time_Now_trace fetchDevices_trace)

lemma visible_simps [simp]:
  "visible (Http rq) = (Method rq = PATCH)"
  "visible (Log m) = False"
  "visible (Sleep d) = True"
  "visible (AwaitTick d) = True"
  "visible (Exec c) = True"
  by (simp_all add: visible_def)

lemma Method_requests [simp]:
  "Method (patch_request env u n d) = PATCH"
  "Method (fetch_request env u n) = GET"
  "Method (create_request env u n t1 t2) = POST"
  "Method (create_request_v2 env u n s1 s2) = POST"
  by (simp_all add: patch_request_def fetch_request_def create_request_def create_request_v2_def)



lemma repeatsI0: "filter visible evs = [p] \<Longrightarrow> repeats p evs"
  unfolding repeats_def by (rule exI [of _ 0]) simp

lemma repeats_Cons:
  "repeats p evs \<Longrightarrow> filter visible pre = [p] \<Longrightarrow> repeats p (pre @ evs)"
  unfolding repeats_def
proof -
  assume "\<exists>k. filter visible evs = replicate (Suc k) p" and pre: "filter visible pre = [p]"
  then obtain k where "filter visible evs = replicate (Suc k) p" by blast
  with pre have "filter visible (pre @ evs) = replicate (Suc (Suc k)) p" by simp
  then show "\<exists>k. filter visible (pre @ evs) = replicate (Suc k) p" by blast
qed

lemma patchDevice_visible:
  "patchDevice env u n d w = Some w' \<Longrightarrow>
     \<exists>evs. trace w' = trace w @ evs \<and> repeats (Http (patch_request env u n d)) evs"
proof (induction rule: patchDevice.raw_induct [rotated 1, consumes 1, case_names step])
  case (step f env u n d w w')
  let ?p = "Http (patch_request env u n d)"
  obtain res w1 where h: "http_Do env (patch_request env u n d) w = (res, w1)"
    by force
  have t1: "trace w1 = trace w @ [?p]"
    using http_Do_trace [OF h] .
  show ?case
  proof (cases res)
    case (Inl err)
    with h step.hyps have "trace w' = trace w @ [?p, Log (LogPatchError err)]"
      using t1 by auto
    moreover have "repeats ?p [?p, Log (LogPatchError err)]"
      by (rule repeatsI0) simp
    ultimately show ?thesis by blast
  next
    case (Inr resp)
    show ?thesis
    proof (cases "StatusCode resp = 404")
      case False
      with Inr h step.hyps have "\<exists>m. trace w' = trace w @ [?p, Log m]"
        using t1 by (auto split: if_splits)
      then obtain m where "trace w' = trace w @ [?p, Log m]" ..
      moreover have "repeats ?p [?p, Log m]"
        by (rule repeatsI0) simp
      ultimately show ?thesis by blast
    next
      case True
      obtain res2 w2 where f: "fetchDevices env u n w1 = (res2, w2)"
        by force
      have t2: "trace w2 = trace w @ [?p, Http (fetch_request env u n)]"
        using fetchDevices_trace [OF f] t1 by simp
      show ?thesis
      proof (cases "length (case res2 of Inl _ \<Rightarrow> [] | Inr devices \<Rightarrow> devices) = 0")
        case False
        with True Inr h f step.hyps have "f env u n d w2 = Some w'"
          by simp
        from step.IH [OF this] obtain evs
          where e: "trace w' = trace w2 @ evs" and r: "repeats ?p evs" by blast
        from e t2 have "trace w' = trace w @ ([?p, Http (fetch_request env u n)] @ evs)"
          by simp
        moreover have "repeats ?p ([?p, Http (fetch_request env u n)] @ evs)"
          by (rule repeats_Cons [OF r]) simp
        ultimately show ?thesis by blast
      next
        case empty: True
        obtain cres w3 where c: "createDevice env u n w2 = (cres, w3)"
          by force
        from createDevice_trace [OF c] obtain rq
          where rq: "Method rq = POST" and t3: "trace w3 = trace w2 @ [Http rq]" by blast
        show ?thesis
        proof (cases cres)
          case (Some err)
          with empty True Inr h f c step.hyps
          have "trace w' = trace w @ [?p, Http (fetch_request env u n), Http rq, Log (LogCreateDevice err)]"
            using t2 t3 by auto
          moreover have "repeats ?p [?p, Http (fetch_request env u n), Http rq, Log (LogCreateDevice err)]"
            by (rule repeatsI0) (simp add: rq)
          ultimately show ?thesis by blast
        next
          case None
          with empty True Inr h f c step.hyps have "f env u n d w3 = Some w'"
            by simp
          from step.IH [OF this] obtain evs
            where e: "trace w' = trace w3 @ evs" and r: "repeats ?p evs" by blast
          from e t2 t3
          have "trace w' = trace w @ ([?p, Http (fetch_request env u n), Http rq] @ evs)"
            by simp
          moreover have "repeats ?p ([?p, Http (fetch_request env u n), Http rq] @ evs)"
            by (rule repeats_Cons [OF r]) (simp add: rq)
          ultimately show ?thesis by blast
        qed
      qed
    qed
  qed
qed


lemma patchDevice_v2_visible:
  "patchDevice_v2 env u n d w = Some y \<Longrightarrow>
     \<exists>evs. trace (snd y) = trace w @ evs \<and> repeats (Http (patch_request env u n d)) evs"
proof (induction rule: patchDevice_v2.raw_induct [rotated 1, consumes 1, case_names step])
  case (step f env u n d w y)
  let ?p = "Http (patch_request env u n d)"
  let ?g = "Http (fetch_request env u n)"
  obtain res w1 where h: "http_Do env (patch_request env u n d) w = (res, w1)"
    by force
  have t1: "trace w1 = trace w @ [?p]"
    using http_Do_trace [OF h] .
  show ?case
  proof (cases res)
    case (Inl err)
    with h step.hyps have "trace (snd y) = trace w @ [?p, Log (LogPatchError err)]"
      using t1 by auto
    moreover have "repeats ?p [?p, Log (LogPatchError err)]"
      by (rule repeatsI0) simp
    ultimately show ?thesis by blast
  next
    case (Inr resp)
    show ?thesis
    proof (cases "StatusCode resp = 404")
      case False
      with Inr h step.hyps have "trace (snd y) = trace w @ [?p] \<or> (\<exists>m. trace (snd y) = trace w @ [?p, Log m])"
        using t1 by (auto split: if_splits)
      moreover have "repeats ?p [?p]" and "\<And>m. repeats ?p [?p, Log m]"
        by (rule repeatsI0, simp)+
      ultimately show ?thesis by blast
    next
      case True
      obtain res2 w2 where f: "fetchDevices env u n w1 = (res2, w2)"
        by force
      have t2: "trace w2 = trace w @ [?p, ?g]"
        using fetchDevices_trace [OF f] t1 by simp
      show ?thesis
      proof (cases "length (case res2 of Inl _ \<Rightarrow> [] | Inr devices \<Rightarrow> devices) = 0")
        case False
        with True Inr h f step.hyps obtain y0 where fy: "f env u n d w2 = Some y0" and y0: "snd y0 = snd y"
          by (auto simp: bind_eq_Some_conv)
        from step.IH [OF fy] y0 obtain evs
          where e: "trace (snd y) = trace w2 @ evs" and r: "repeats ?p evs" by auto
        from e t2 have "trace (snd y) = trace w @ ([?p, ?g] @ evs)"
          by simp
        moreover have "repeats ?p ([?p, ?g] @ evs)"
          by (rule repeats_Cons [OF r]) simp
        ultimately show ?thesis by blast
      next
        case empty: True
        obtain cres w3 where c: "createDevice_v2 env u n w2 = (cres, w3)"
          by force
        from createDevice_v2_trace [OF c] obtain cs
          where t3: "trace w3 = trace w2 @ cs" and q: "filter visible cs = []" by blast
        show ?thesis
        proof (cases cres)
          case (Some err)
          with empty True Inr h f c step.hyps
          have "trace (snd y) = trace w @ (([?p, ?g] @ cs) @ [Log (LogCreateDevice err)])"
            using t2 t3 by auto
          moreover have "repeats ?p (([?p, ?g] @ cs) @ [Log (LogCreateDevice err)])"
            by (rule repeatsI0) (simp add: q)
          ultimately show ?thesis by blast
        next
          case None
          with empty True Inr h f c step.hyps obtain y0 where fy: "f env u n d w3 = Some y0" and y0: "snd y0 = snd y"
            by (auto simp: bind_eq_Some_conv)
          from step.IH [OF fy] y0 obtain evs
            where e: "trace (snd y) = trace w3 @ evs" and r: "repeats ?p evs" by auto
          from e t2 t3 have "trace (snd y) = trace w @ (([?p, ?g] @ cs) @ evs)"
            by simp
          moreover have "repeats ?p (([?p, ?g] @ cs) @ evs)"
            by (rule repeats_Cons [OF r]) (simp add: q)
          ultimately show ?thesis by blast
        qed
      qed
    qed
  qed
qed

lemma patch_foundD:
  assumes "patch_found env" and "http_Do env (patch_request env u n d) w = (Inr resp, w1)"
  shows "StatusCode resp \<noteq> 404"
proof -
  obtain res r' where sv: "serve env (registry w) (patch_request env u n d) = (res, r')"
    by force
  with assms(2) have "res = Inr resp"
    by (auto simp: http_Do_def split: sum.splits)
  with sv assms(1) show ?thesis
    unfolding patch_found_def by (metis Method_requests(1))
qed

lemma patchDevice_returns:
  assumes "patch_found env"
  shows "\<exists>w'. patchDevice env u n d w = Some w'"
proof -
  obtain res w1 where h: "http_Do env (patch_request env u n d) w = (res, w1)"
    by force
  show ?thesis
  proof (cases res)
    case (Inl err)
    with h show ?thesis by (subst patchDevice.simps) simp
  next
    case (Inr resp)
    with h assms have "StatusCode resp \<noteq> 404"
      by (auto dest: patch_foundD)
    with Inr h show ?thesis by (subst patchDevice.simps) simp
  qed
qed

lemma patchDevice_v2_returns:
  assumes "patch_found env"
  shows "\<exists>r w'. patchDevice_v2 env u n d w = Some (r, w')"
proof -
  obtain res w1 where h: "http_Do env (patch_request env u n d) w = (res, w1)"
    by force
  show ?thesis
  proof (cases res)
    case (Inl err)
    with h show ?thesis by (subst patchDevice_v2.simps) simp
  next
    case (Inr resp)
    with h assms have "StatusCode resp \<noteq> 404"
      by (auto dest: patch_foundD)
    with Inr h show ?thesis by (subst patchDevice_v2.simps) simp
  qed
qed

lemma since_append: "trace w' = trace w @ evs \<Longrightarrow> since w w' = evs"
  by (simp add: since_def)

section \<open>Outlines of the executor\<close>

lemma merge_resent_twice:
  "merge_resent (xs @ Http p # Http p # ys) = merge_resent (xs @ Http p # ys)"
proof (induction xs)
  case Nil
  show ?case by simp
next
  case (Cons e xs)
  show ?case
  proof (cases xs)
    case Nil
    then show ?thesis by (cases e) simp_all
  next
    case (Cons x xs')
    with Cons.IH show ?thesis by (cases e; cases x) simp_all
  qed
qed

lemma merge_resent_replicate:
  "merge_resent (xs @ replicate (Suc k) (Http p) @ ys) = merge_resent (xs @ Http p # ys)"
proof (induction k arbitrary: xs)
  case 0
  show ?case by simp
next
  case (Suc k)
  have "merge_resent (xs @ replicate (Suc (Suc k)) (Http p) @ ys)
      = merge_resent ((xs @ [Http p]) @ replicate (Suc k) (Http p) @ ys)"
    by simp
  also have "\<dots> = merge_resent ((xs @ [Http p]) @ Http p # ys)"
    by (rule Suc.IH)
  also have "\<dots> = merge_resent (xs @ Http p # ys)"
    using merge_resent_twice [of xs p ys] by simp
  finally show ?case .
qed

lemma outline_one:
  "repeats (Http p) evs \<Longrightarrow> outline (pre @ evs @ post) =
     merge_resent (filter visible pre @ Http p # filter visible post)"
proof -
  assume "repeats (Http p) evs"
  then obtain k where k: "filter visible evs = replicate (Suc k) (Http p)"
    unfolding repeats_def by blast
  have "merge_resent (filter visible pre @ replicate (Suc k) (Http p) @ filter visible post)
      = merge_resent (filter visible pre @ Http p # filter visible post)"
    by (rule merge_resent_replicate)
  then show ?thesis
    by (simp add: outline_def k del: replicate_Suc)
qed

lemma outline_two:
  assumes "repeats (Http p) evs" and "repeats (Http t) evs'"
  shows "outline (pre @ evs @ mid @ evs') =
     merge_resent (filter visible pre @ Http p # filter visible mid @ [Http t])"
proof -
  from assms(2) obtain k where k: "filter visible evs' = replicate (Suc k) (Http t)"
    unfolding repeats_def by blast
  have "outline (pre @ evs @ mid @ evs') =
      merge_resent (filter visible pre @ Http p # filter visible (mid @ evs'))"
    using outline_one [OF assms(1), of pre "mid @ evs'"] by simp
  also have "\<dots> = merge_resent ((filter visible pre @ Http p # filter visible mid)
                       @ replicate (Suc k) (Http t) @ [])"
    by (simp add: k del: replicate_Suc)
  also have "\<dots> = merge_resent ((filter visible pre @ Http p # filter visible mid) @ Http t # [])"
    by (rule merge_resent_replicate)
  finally show ?thesis by simp
qed

lemma deadline_passed_frame:
  "deadline_passed env req w = (b, w1) \<Longrightarrow> trace w1 = trace w \<and> registry w1 = registry w"
  by (auto simp: deadline_passed_def time_Now_def split: option.splits)

lemma deadline_v2_frame:
  "deadline_v2 env req w = (b, w1) \<Longrightarrow> trace w1 = trace w \<and> registry w1 = registry w"
  by (auto simp: deadline_v2_def time_Now_def split: option.splits sum.splits)

lemma too_recent_frame:
  "too_recent env dev w = (b, w1) \<Longrightarrow> trace w1 = trace w \<and> registry w1 = registry w"
  by (auto simp: too_recent_def time_Since_def time_Now_def split: option.splits)

lemma since_frame: "trace w1 = trace w \<Longrightarrow> since w w' = since w1 w'"
  by (simp add: since_def)

lemma patchDevice_outline:
  assumes "patchDevice env u n d w = Some w'"
  shows "outline (since w w') = [Http (patch_request env u n d)]"
proof -
  from patchDevice_visible [OF assms] obtain evs
    where e: "trace w' = trace w @ evs" and r: "repeats (Http (patch_request env u n d)) evs"
    by blast
  from outline_one [OF r, of "[]" "[]"] since_append [OF e] show ?thesis by simp
qed

lemma patchDevice_v2_outline:
  assumes "patchDevice_v2 env u n d w = Some (r, w')"
  shows "outline (since w w') = [Http (patch_request env u n d)]"
proof -
  from patchDevice_v2_visible [OF assms] obtain evs
    where e: "trace w' = trace w @ evs" and r: "repeats (Http (patch_request env u n d)) evs"
    by auto
  from outline_one [OF r, of "[]" "[]"] since_append [OF e] show ?thesis by simp
qed

lemma handleShutdown_commit_outline:
  assumes d: "deadline_passed env req w = (False, w1)"
      and t: "too_recent env dev w1 = (False, w2)"
      and h: "handleShutdown env u n dev req w = Some w'"
  shows "outline (since w w') =
           [Http (patch_request env u n done_payload), Sleep ShutdownDelay,
            Exec [''shutdown'', ''now'']]"
proof -
  from d t h obtain w3 where p: "patchDevice env u n done_payload w2 = Some w3"
    and w': "w' = emit (Exec [''shutdown'', ''now''])
                   (emit (Sleep ShutdownDelay) (emit (Log LogShuttingDown) w3))"
    by (auto simp: handleShutdown_def split: option.splits)
  from patchDevice_visible [OF p] obtain evs
    where e: "trace w3 = trace w2 @ evs" and r: "repeats (Http (patch_request env u n done_payload)) evs"
    by blast
  have tw: "trace w2 = trace w"
    using deadline_passed_frame [OF d] too_recent_frame [OF t] by simp
  have "since w w' = [] @ evs @ [Log LogShuttingDown, Sleep ShutdownDelay, Exec [''shutdown'', ''now'']]"
    by (rule since_append) (simp add: w' e tw)
  then show ?thesis
    using outline_one [OF r, of "[]"
        "[Log LogShuttingDown, Sleep ShutdownDelay, Exec [''shutdown'', ''now'']]"] by simp
qed

lemma execute_v2_outline:
  assumes h: "execute_v2 env u n w = Some w'"
  shows "outline (since w w') =
           [Http (patch_request env u n
                    (shutting_down_payload (format_rfc3339 env (clock env (ticks w))))),
            Sleep ShutdownDelay] @
           (case shutdown_command (goos env) of
              None \<Rightarrow> []
            | Some cmd \<Rightarrow>
                [Exec cmd,
                 Http (patch_request env u n
                   (case snd (run_command env cmd) of
                      Some msg \<Rightarrow> failed_payload msg
                    | None \<Rightarrow> done_payload_v2))])"
proof -
  let ?c = "Http (patch_request env u n
                    (shutting_down_payload (format_rfc3339 env (clock env (ticks w)))))"
  let ?w1 = "(emit (Log LogShuttingDown) w)\<lparr>ticks := Suc (ticks w)\<rparr>"
  from h obtain r1 w2 where p1: "patchDevice_v2 env u n
         (shutting_down_payload (format_rfc3339 env (clock env (ticks w)))) ?w1 = Some (r1, w2)"
    by (auto simp: execute_v2_def time_Now_def emit_def split: option.splits)
  from patchDevice_v2_visible [OF p1] obtain evs
    where e: "trace w2 = trace w @ [Log LogShuttingDown] @ evs" and r: "repeats ?c evs"
    by auto
  show ?thesis
  proof (cases "shutdown_command (goos env)")
    case None
    with h p1 have "w' = emit (Log (LogUnsupportedOS (goos env))) (emit (Sleep ShutdownDelay) w2)"
      by (auto simp: execute_v2_def time_Now_def emit_def split: option.splits)
    then have "since w w' = [Log LogShuttingDown] @ evs
                 @ [Sleep ShutdownDelay, Log (LogUnsupportedOS (goos env))]"
      by (intro since_append) (simp add: e)
    then show ?thesis
      using outline_one [OF r, of "[Log LogShuttingDown]"
              "[Sleep ShutdownDelay, Log (LogUnsupportedOS (goos env))]"] None by simp
  next
    case (Some cmd)
    obtain out res where rc: "run_command env cmd = (out, res)"
      by force
    show ?thesis
    proof (cases res)
      case ok: None
      with h p1 Some rc obtain r2 w4
        where p2: "patchDevice_v2 env u n done_payload_v2
                     (emit (Exec cmd) (emit (Sleep ShutdownDelay) w2)) = Some (r2, w4)"
          and w': "w' = emit (Log LogCommandOk) w4"
        by (auto simp: execute_v2_def time_Now_def emit_def split: option.splits)
      from patchDevice_v2_visible [OF p2] obtain evs'
        where e': "trace w4 = trace w2 @ [Sleep ShutdownDelay, Exec cmd] @ evs'"
          and r': "repeats (Http (patch_request env u n done_payload_v2)) evs'"
        by auto
      have "since w w' = ([Log LogShuttingDown] @ evs @ [Sleep ShutdownDelay, Exec cmd] @ evs')
                 @ [Log LogCommandOk]"
        by (rule since_append) (simp add: w' e e')
      then have "outline (since w w') =
          outline ([Log LogShuttingDown] @ evs @ [Sleep ShutdownDelay, Exec cmd] @ evs')"
        by (simp add: outline_def)
      then show ?thesis
        using outline_two [OF r r', of "[Log LogShuttingDown]" "[Sleep ShutdownDelay, Exec cmd]"]
          Some rc ok by simp
    next
      case (Some msg)
      note failed = this
      with h p1 \<open>shutdown_command (goos env) = Some cmd\<close> rc obtain r2 w4
        where p2: "patchDevice_v2 env u n (failed_payload msg)
                     (emit (Log (LogCommandFailed (Command msg) out))
                        (emit (Exec cmd) (emit (Sleep ShutdownDelay) w2))) = Some (r2, w4)"
          and w': "w' = w4"
        by (auto simp: execute_v2_def time_Now_def emit_def split: option.splits)
      from patchDevice_v2_visible [OF p2] obtain evs'
        where e': "trace w4 = trace w2 @ [Sleep ShutdownDelay, Exec cmd,
                      Log (LogCommandFailed (Command msg) out)] @ evs'"
          and r': "repeats (Http (patch_request env u n (failed_payload msg))) evs'"
        by auto
      have "since w w' = [Log LogShuttingDown] @ evs @ [Sleep ShutdownDelay, Exec cmd,
                      Log (LogCommandFailed (Command msg) out)] @ evs'"
        by (rule since_append) (simp add: w' e e')
      then show ?thesis
        using outline_two [OF r r', of "[Log LogShuttingDown]"
              "[Sleep ShutdownDelay, Exec cmd, Log (LogCommandFailed (Command msg) out)]"]
          \<open>shutdown_command (goos env) = Some cmd\<close> rc failed by simp
    qed
  qed
qed

lemma json_Unmarshal_map_error:
  "(\<exists>err. json_Unmarshal_map raw = Inl err) = (raw \<noteq> VNil \<and> (\<forall>kvs. raw \<noteq> VMap kvs))"
  by (cases raw) (simp_all add: json_Unmarshal_map_def)

lemma handleShutdown_returns:
  assumes "patch_found env"
  shows "\<exists>w'. handleShutdown env u n dev req w = Some w'"
proof -
  obtain b1 w1 where d: "deadline_passed env req w = (b1, w1)" by force
  obtain b2 w2 where t: "too_recent env dev w1 = (b2, w2)" by force
  obtain w3 where "patchDevice env u n done_payload w2 = Some w3"
    using patchDevice_returns [OF assms] by blast
  with d t patchDevice_returns [OF assms, of u n expired_payload w1] show ?thesis
    by (cases b1; cases b2) (auto simp: handleShutdown_def)
qed

lemma execute_v2_returns:
  assumes "patch_found env"
  shows "\<exists>w'. execute_v2 env u n w = Some w'"
proof -
  obtain now w1 where n: "time_Now env (emit (Log LogShuttingDown) w) = (now, w1)" by force
  obtain r1 w2 where p1: "patchDevice_v2 env u n
       (shutting_down_payload (format_rfc3339 env now)) w1 = Some (r1, w2)"
    using patchDevice_v2_returns [OF assms] by blast
  show ?thesis
  proof (cases "shutdown_command (goos env)")
    case None
    with n p1 show ?thesis by (simp add: execute_v2_def)
  next
    case (Some cmd)
    obtain out res where rc: "run_command env cmd = (out, res)" by force
    show ?thesis
    proof (cases res)
      case None
      obtain r2 w4 where "patchDevice_v2 env u n done_payload_v2
            (emit (Exec cmd) (emit (Sleep ShutdownDelay) w2)) = Some (r2, w4)"
        using patchDevice_v2_returns [OF assms] by blast
      with n p1 Some rc None show ?thesis by (simp add: execute_v2_def)
    next
      case failed: (Some msg)
      obtain r2 w4 where "patchDevice_v2 env u n (failed_payload msg)
            (emit (Log (LogCommandFailed (Command msg) out))
               (emit (Exec cmd) (emit (Sleep ShutdownDelay) w2))) = Some (r2, w4)"
        using patchDevice_v2_returns [OF assms] by blast
      with n p1 Some rc failed show ?thesis by (simp add: execute_v2_def)
    qed
  qed
qed

lemma handleShutdown_v2_returns:
  assumes "patch_found env"
  shows "\<exists>w'. handleShutdown_v2 env u n dev req w = Some w'"
proof -
  obtain v w1 where d: "deadline_v2 env req w = (v, w1)" by force
  obtain b2 w2 where t: "too_recent env dev w1 = (b2, w2)" by force
  obtain r3 w3 where "patchDevice_v2 env u n expired_payload w1 = Some (r3, w3)"
    using patchDevice_v2_returns [OF assms] by blast
  with d t execute_v2_returns [OF assms, of u n w2] show ?thesis
    by (cases v; cases b2) (auto simp: handleShutdown_v2_def split: bool.splits)
qed

lemma patch_found_demo: "patch_found demo_env"
  by (auto simp: patch_found_def demo_env_def demo_serve_def split: http_method.splits)

lemma updateDeviceStatus_pass_outline:
  assumes "updateDeviceStatus_pass env u n w = Some w'"
  shows "outline (since w w') =
        [Http (patch_request env u n
           [(''status'', VStr ''on''),
            (''last_seen'', VTime (clock env (ticks w))),
            (''first_online_at'', VTime (clock env (Suc (ticks w))))]),
         AwaitTick StatusUpdateInterval]"
proof -
  let ?d = "[(''status'', VStr ''on''),
            (''last_seen'', VTime (clock env (ticks w))),
            (''first_online_at'', VTime (clock env (Suc (ticks w))))]"
  from assms obtain w3
    where p: "patchDevice env u n ?d (w\<lparr>ticks := Suc (Suc (ticks w))\<rparr>) = Some w3"
      and w': "w' = emit (AwaitTick StatusUpdateInterval) w3"
    by (auto simp: updateDeviceStatus_pass_def time_Now_def split: option.splits)
  from patchDevice_visible [OF p] obtain evs
    where e: "trace w3 = trace w @ evs" and r: "repeats (Http (patch_request env u n ?d)) evs"
    by auto
  have "since w w' = [] @ evs @ [AwaitTick StatusUpdateInterval]"
    by (rule since_append) (simp add: w' e)
  then show ?thesis
    using outline_one [OF r, of "[]" "[AwaitTick StatusUpdateInterval]"] by simp
qed

lemma updateDeviceStatus_pass_v2_outline:
  assumes a: "updateDeviceStatus_pass_v2 env u n w = Some (r, w')"
  shows "outline (since w w') =
        Http (patch_request env u n
           [(''status'', VStr ''on''),
            (''last_seen'', VStr (format_rfc3339 env (clock env (ticks w)))),
            (''first_online_at'', VStr (format_rfc3339 env (clock env (ticks w))))])
        # (if r = None then [AwaitTick StatusUpdateInterval] else [])"
proof -
  let ?d = "[(''status'', VStr ''on''),
            (''last_seen'', VStr (format_rfc3339 env (clock env (ticks w)))),
            (''first_online_at'', VStr (format_rfc3339 env (clock env (ticks w))))]"
  from a obtain r3 w3
    where p: "patchDevice_v2 env u n ?d (w\<lparr>ticks := Suc (ticks w)\<rparr>) = Some (r3, w3)"
    by (auto simp: updateDeviceStatus_pass_v2_def time_Now_def split: option.splits)
  from patchDevice_v2_visible [OF p] obtain evs
    where e: "trace w3 = trace w @ evs" and rp: "repeats (Http (patch_request env u n ?d)) evs"
    by auto
  from a p have w': "w' = (if r = None then emit (AwaitTick StatusUpdateInterval) w3 else w3)"
    by (auto simp: updateDeviceStatus_pass_v2_def time_Now_def split: option.splits)
  have "since w w' = [] @ evs @ (if r = None then [AwaitTick StatusUpdateInterval] else [])"
    by (rule since_append) (simp add: w' e)
  then show ?thesis
    using outline_one [OF rp, of "[]" "if r = None then [AwaitTick StatusUpdateInterval] else []"]
    by simp
qed

lemma updateDeviceStatus_pass_returns:
  assumes "patch_found env"
  shows "updateDeviceStatus_pass env u n w \<noteq> None"
    and "updateDeviceStatus_pass_v2 env u n w \<noteq> None"
  using patchDevice_returns [OF assms] patchDevice_v2_returns [OF assms]
  by (auto simp: updateDeviceStatus_pass_def updateDeviceStatus_pass_v2_def time_Now_def
      split: option.splits)

text \<open>
  C6. Every pass of the Status Reporter sends one PATCH (sent again only by the 404
  recovery) whose payload sets \<^verbatim>\<open>status\<close> to "on" and sets both \<^verbatim>\<open>last_seen\<close> and
  \<^verbatim>\<open>first_online_at\<close> to the current time: two successive readings of the clock in
  \<^verbatim>\<open>src/app.go\<close>, one formatted reading in \<^verbatim>\<open>part_002\<close>. So \<^verbatim>\<open>first_online_at\<close> is
  rewritten on every tick. The pass returns whenever the registry does not answer the
  PATCH with 404.
\<close>

theorem status_reporter_rewrites_first_online_at:
  "(patch_found env \<longrightarrow>
      updateDeviceStatus_pass env u n w \<noteq> None \<and>
      updateDeviceStatus_pass_v2 env u n w \<noteq> None) \<and>
   (\<forall>w'. updateDeviceStatus_pass env u n w = Some w' \<longrightarrow>
      outline (since w w') =
        [Http (patch_request env u n
           [(''status'', VStr ''on''),
            (''last_seen'', VTime (clock env (ticks w))),
            (''first_online_at'', VTime (clock env (Suc (ticks w))))]),
         AwaitTick StatusUpdateInterval]) \<and>
   (\<forall>r w'. updateDeviceStatus_pass_v2 env u n w = Some (r, w') \<longrightarrow>
      outline (since w w') =
        Http (patch_request env u n
           [(''status'', VStr ''on''),
            (''last_seen'', VStr (format_rfc3339 env (clock env (ticks w)))),
            (''first_online_at'', VStr (format_rfc3339 env (clock env (ticks w))))])
        # (if r = None then [AwaitTick StatusUpdateInterval] else []))"
  using updateDeviceStatus_pass_returns [of env u n w]
    updateDeviceStatus_pass_outline [of env u n w]
    updateDeviceStatus_pass_v2_outline [of env u n w]
  by blast

theorem status_reporter_rewrites_first_online_at_witness:
  "patch_found demo_env \<and>
   (\<exists>w'. updateDeviceStatus_pass demo_env ''u1'' ''laptop-7'' demo_world = Some w' \<and>
      outline (since demo_world w') =
        [Http (patch_request demo_env ''u1'' ''laptop-7''
           [(''status'', VStr ''on''),
            (''last_seen'', VTime 1700000000000000000),
            (''first_online_at'', VTime 1700000000000000001)]),
         AwaitTick 180000000000]) \<and>
   (\<exists>r w'. updateDeviceStatus_pass_v2 demo_env ''u1'' ''laptop-7'' demo_world = Some (r, w') \<and>
      outline (since demo_world w') =
        [Http (patch_request demo_env ''u1'' ''laptop-7''
           [(''status'', VStr ''on''),
            (''last_seen'', VStr ''2023-11-14T22:13:20Z''),
            (''first_online_at'', VStr ''2023-11-14T22:13:20Z'')]),
         AwaitTick 180000000000])"
proof -
  note t = status_reporter_rewrites_first_online_at [of demo_env "''u1''" "''laptop-7''" demo_world]
  have c: "clock demo_env (ticks demo_world) = 1700000000000000000"
    "clock demo_env (Suc (ticks demo_world)) = 1700000000000000001"
    "format_rfc3339 demo_env 1700000000000000000 = ''2023-11-14T22:13:20Z''"
    "StatusUpdateInterval = 180000000000"
    by (simp_all add: demo_env_def demo_world_def Second_def Minute_def StatusUpdateInterval_def)
  from t patch_found_demo obtain w1
    where w1: "updateDeviceStatus_pass demo_env ''u1'' ''laptop-7'' demo_world = Some w1"
    by blast
  from t patch_found_demo obtain r2 w2
    where w2: "updateDeviceStatus_pass_v2 demo_env ''u1'' ''laptop-7'' demo_world = Some (r2, w2)"
    by fastforce
  have "r2 = None"
    using w2
    by (subst (asm) updateDeviceStatus_pass_v2_def, subst (asm) patchDevice_v2.simps)
       (simp add: time_Now_def http_Do_def demo_env_def demo_serve_def patch_request_def)
  with t w1 w2 c patch_found_demo show ?thesis
    by simp
qed

lemma outline_simps [simp]:
  "outline [] = []"
  "outline (Log m # evs) = outline evs"
  by (simp_all add: outline_def)

lemma handleShutdown_outline:
  assumes h: "handleShutdown env u n dev req w = Some w'"
      and d: "deadline_passed env req w = (b1, w1)"
      and t: "too_recent env dev w1 = (b2, w2)"
  shows "outline (since w w') =
           (if b1 then [Http (patch_request env u n expired_payload)]
            else if b2 then []
            else [Http (patch_request env u n done_payload), Sleep ShutdownDelay,
                  Exec [''shutdown'', ''now'']])"
proof -
  have tw: "trace w1 = trace w" "trace w2 = trace w"
    using deadline_passed_frame [OF d] too_recent_frame [OF t] by simp_all
  show ?thesis
  proof (cases b1)
    case True
    with h d have "patchDevice env u n expired_payload w1 = Some w'"
      by (simp add: handleShutdown_def)
    from patchDevice_outline [OF this] True show ?thesis
      using since_frame [OF tw(1)] by simp
  next
    case False
    show ?thesis
    proof (cases b2)
      case True
      with h d t False have "w' = w2"
        by (simp add: handleShutdown_def)
      with tw True False show ?thesis by (simp add: since_def)
    next
      case nb2: False
      with False d t h show ?thesis
        using handleShutdown_commit_outline by simp
    qed
  qed
qed

lemma handleShutdown_v2_outline:
  assumes h: "handleShutdown_v2 env u n dev req w = Some w'"
      and d: "deadline_v2 env req w = (v, w1)"
      and t: "too_recent env dev w1 = (b2, w2)"
  shows "outline (since w w') =
           (case v of
              Inl err \<Rightarrow> []
            | Inr True \<Rightarrow> [Http (patch_request env u n expired_payload)]
            | Inr False \<Rightarrow>
                if b2 then []
                else
                  [Http (patch_request env u n
                     (shutting_down_payload (format_rfc3339 env (clock env (ticks w2))))),
                   Sleep ShutdownDelay] @
                  (case shutdown_command (goos env) of
                     None \<Rightarrow> []
                   | Some cmd \<Rightarrow>
                       [Exec cmd,
                        Http (patch_request env u n
                          (case snd (run_command env cmd) of
                             Some msg \<Rightarrow> failed_payload msg
                           | None \<Rightarrow> done_payload_v2))]))"
proof -
  have tw: "trace w1 = trace w" "trace w2 = trace w"
    using deadline_v2_frame [OF d] too_recent_frame [OF t] by simp_all
  show ?thesis
  proof (cases v)
    case (Inl err)
    with h d have "w' = emit (Log (LogExpiresParse err)) w1"
      by (simp add: handleShutdown_v2_def)
    then have "since w w' = [Log (LogExpiresParse err)]"
      by (intro since_append) (simp add: tw)
    with Inl show ?thesis by simp
  next
    case (Inr b1)
    show ?thesis
    proof (cases b1)
      case True
      with h d Inr obtain r where "patchDevice_v2 env u n expired_payload w1 = Some (r, w')"
        by (auto simp: handleShutdown_v2_def split: option.splits)
      from patchDevice_v2_outline [OF this] True Inr show ?thesis
        using since_frame [OF tw(1)] by simp
    next
      case False
      show ?thesis
      proof (cases b2)
        case True
        with h d t False Inr have "w' = emit (Log (LogTooRecent n)) w2"
          by (simp add: handleShutdown_v2_def)
        then have "since w w' = [Log (LogTooRecent n)]"
          by (intro since_append) (simp add: tw)
        with True False Inr show ?thesis by simp
      next
        case nb2: False
        with h d t False Inr have "execute_v2 env u n w2 = Some w'"
          by (simp add: handleShutdown_v2_def)
        from execute_v2_outline [OF this] nb2 False Inr show ?thesis
          using since_frame [OF tw(2)] by simp
      qed
    qed
  qed
qed

lemma demo_guards:
  "deadline_passed demo_env demo_request demo_world = (False, demo_world)"
  "deadline_passed demo_env demo_request_string demo_world = (False, demo_world)"
  "deadline_passed demo_env demo_request_number demo_world = (True, demo_world\<lparr>ticks := 1\<rparr>)"
  "deadline_v2 demo_env demo_request demo_world = (Inr False, demo_world)"
  "deadline_v2 demo_env demo_request_string demo_world = (Inr True, demo_world\<lparr>ticks := 1\<rparr>)"
  "deadline_v2 demo_env demo_request_number demo_world = (Inr False, demo_world)"
  "too_recent demo_env demo_device w = (False, w)"
  by (simp_all add: deadline_passed_def deadline_v2_def too_recent_def as_float64_def
      as_string_def demo_request_def demo_request_string_def demo_request_number_def
      demo_env_def demo_parse_def demo_world_def demo_device_def time_Now_def time_Unix_def
      int64_of_float64_def Second_def)

text \<open>
  C9. In \<^verbatim>\<open>src/app.go\<close> a pending request whose \<^verbatim>\<open>expires_at\<close> is present but is not a
  JSON number is handled exactly as if the field were absent: the deadline check reads
  no clock and does not fire, whatever the value says, and when the uptime guard passes
  the executor goes on to its write and the power-off command.
\<close>

theorem non_numeric_deadline_ignored:
  assumes "req ''expires_at'' = Some v" and "\<forall>x. v \<noteq> VNum x"
  shows "deadline_passed env req w = (False, w) \<and>
         handleShutdown env u n dev req w
           = handleShutdown env u n dev (req(''expires_at'' := None)) w \<and>
         (\<forall>w2. too_recent env dev w = (False, w2) \<longrightarrow>
            (patch_found env \<longrightarrow> handleShutdown env u n dev req w \<noteq> None) \<and>
            (\<forall>w'. handleShutdown env u n dev req w = Some w' \<longrightarrow>
               outline (since w w') =
                 [Http (patch_request env u n done_payload), Sleep ShutdownDelay,
                  Exec [''shutdown'', ''now'']]))"
proof -
  from assms have nf: "as_float64 (req ''expires_at'') = None"
    by (cases v) (simp_all add: as_float64_def)
  then have d: "deadline_passed env req w = (False, w)"
    by (simp add: deadline_passed_def)
  have d': "deadline_passed env (req(''expires_at'' := None)) w = (False, w)"
    by (simp add: deadline_passed_def as_float64_def)
  have e: "handleShutdown env u n dev req w
           = handleShutdown env u n dev (req(''expires_at'' := None)) w"
    by (simp add: handleShutdown_def d d')
  have "handleShutdown env u n dev req w \<noteq> None" if "patch_found env"
    using handleShutdown_returns [OF that, of u n dev req w] by auto
  moreover have "outline (since w w') =
                 [Http (patch_request env u n done_payload), Sleep ShutdownDelay,
                  Exec [''shutdown'', ''now'']]"
    if "too_recent env dev w = (False, w2)" and "handleShutdown env u n dev req w = Some w'"
    for w2 w'
    using handleShutdown_outline [OF that(2) d that(1)] by simp
  ultimately show ?thesis
    using d e by blast
qed

theorem non_numeric_deadline_ignored_witness:
  "demo_request_string ''expires_at'' = Some (VStr ''2020-01-01T00:00:00Z'') \<and>
   (\<forall>x. VStr ''2020-01-01T00:00:00Z'' \<noteq> VNum x) \<and>
   parse_rfc3339 demo_env ''2020-01-01T00:00:00Z'' = Inr 1577836800000000000 \<and>
   clock demo_env 0 = 1700000000000000000 \<and>
   (\<exists>w'. handleShutdown demo_env ''u1'' ''laptop-7'' demo_device demo_request_string demo_world
            = Some w' \<and>
      outline (since demo_world w') =
        [Http (patch_request demo_env ''u1'' ''laptop-7'' done_payload), Sleep ShutdownDelay,
         Exec [''shutdown'', ''now'']])"
proof -
  have a: "demo_request_string ''expires_at'' = Some (VStr ''2020-01-01T00:00:00Z'')"
    by (simp add: demo_request_string_def)
  have b: "\<forall>x. VStr ''2020-01-01T00:00:00Z'' \<noteq> VNum x"
    by simp
  have c: "parse_rfc3339 demo_env ''2020-01-01T00:00:00Z'' = Inr 1577836800000000000"
    "clock demo_env 0 = 1700000000000000000"
    by (simp_all add: demo_env_def demo_parse_def Second_def)
  from non_numeric_deadline_ignored [where req = demo_request_string
      and v = "VStr ''2020-01-01T00:00:00Z''" and env = demo_env and w = demo_world
      and u = "''u1''" and n = "''laptop-7''" and dev = demo_device, OF a b]
    patch_found_demo demo_guards(7) a b c
  show ?thesis by fastforce
qed

lemma since_demo_world [simp]: "since demo_world w' = trace w'"
  by (simp add: since_def demo_world_def)

lemma deadline_passed_number:
  "req ''expires_at'' = Some (VNum x) \<Longrightarrow>
     deadline_passed env req w =
       (int64_of_float64 env x < time_Unix (clock env (ticks w)), w\<lparr>ticks := Suc (ticks w)\<rparr>)"
  by (simp add: deadline_passed_def as_float64_def time_Now_def)

lemma deadline_v2_string:
  "req ''expires_at'' = Some (VStr s) \<Longrightarrow> parse_rfc3339 env s = Inr t \<Longrightarrow>
     deadline_v2 env req w = (Inr (t < clock env (ticks w)), w\<lparr>ticks := Suc (ticks w)\<rparr>)"
  by (simp add: deadline_v2_def as_string_def time_Now_def)




lemma too_recent_known:
  "FirstOnlineAt dev = Some t \<Longrightarrow>
     too_recent env dev w =
       (time_Sub (clock env (ticks w)) t < MinUptimeBeforeShutdown, w\<lparr>ticks := Suc (ticks w)\<rparr>)"
  by (simp add: too_recent_def time_Since_def time_Now_def)

text \<open>
  C5, as amended. When the deadline check does not fire, a pending request observed
  while \<^verbatim>\<open>first_online_at\<close> is known and less than one minute has passed since it makes
  the executor return at once: \<^verbatim>\<open>src/app.go\<close> adds nothing to the trace, \<^verbatim>\<open>part_002\<close>
  adds one log line, and neither sends a request, so the registry is as it was and no
  power-off is attempted. (In \<^verbatim>\<open>part_002\<close> a deadline that \<^verbatim>\<open>time.Parse\<close> rejects
  ends the executor with one log line as well.)
\<close>

theorem recent_boot_skipped:
  "(\<forall>t w1. FirstOnlineAt dev = Some t \<longrightarrow> deadline_passed env req w = (False, w1) \<longrightarrow>
        time_Sub (clock env (ticks w1)) t < MinUptimeBeforeShutdown \<longrightarrow>
        (\<exists>w'. handleShutdown env u n dev req w = Some w' \<and>
              trace w' = trace w \<and> registry w' = registry w)) \<and>
   (\<forall>t v w1. FirstOnlineAt dev = Some t \<longrightarrow> deadline_v2 env req w = (v, w1) \<longrightarrow>
        v \<noteq> Inr True \<longrightarrow>
        time_Sub (clock env (ticks w1)) t < MinUptimeBeforeShutdown \<longrightarrow>
        (\<exists>w' m. handleShutdown_v2 env u n dev req w = Some w' \<and>
              trace w' = trace w @ [Log m] \<and> registry w' = registry w))"
proof (intro conjI allI impI)
  fix t w1
  assume f: "FirstOnlineAt dev = Some t" and d: "deadline_passed env req w = (False, w1)"
    and r: "time_Sub (clock env (ticks w1)) t < MinUptimeBeforeShutdown"
  have "handleShutdown env u n dev req w = Some (w1\<lparr>ticks := Suc (ticks w1)\<rparr>)"
    using d r by (simp add: handleShutdown_def too_recent_known [OF f])
  then show "\<exists>w'. handleShutdown env u n dev req w = Some w' \<and>
              trace w' = trace w \<and> registry w' = registry w"
    using deadline_passed_frame [OF d] by simp
next
  fix t v w1
  assume f: "FirstOnlineAt dev = Some t" and d: "deadline_v2 env req w = (v, w1)"
    and v: "v \<noteq> Inr True"
    and r: "time_Sub (clock env (ticks w1)) t < MinUptimeBeforeShutdown"
  show "\<exists>w' m. handleShutdown_v2 env u n dev req w = Some w' \<and>
              trace w' = trace w @ [Log m] \<and> registry w' = registry w"
  proof (cases v)
    case (Inl err)
    with d have "handleShutdown_v2 env u n dev req w
          = Some (emit (Log (LogExpiresParse err)) w1)"
      by (simp add: handleShutdown_v2_def)
    then show ?thesis
      using deadline_v2_frame [OF d] by (simp add: emit_def)
  next
    case (Inr b)
    with v have "v = Inr False" by simp
    with d r have "handleShutdown_v2 env u n dev req w
          = Some (emit (Log (LogTooRecent n)) (w1\<lparr>ticks := Suc (ticks w1)\<rparr>))"
      by (simp add: handleShutdown_v2_def too_recent_known [OF f])
    then show ?thesis
      using deadline_v2_frame [OF d] by (simp add: emit_def)
  qed
qed

theorem recent_boot_skipped_witness:
  "FirstOnlineAt demo_device_fresh = Some 1699999990000000000 \<and>
   deadline_passed demo_env demo_request demo_world = (False, demo_world) \<and>
   deadline_v2 demo_env demo_request demo_world = (Inr False, demo_world) \<and>
   time_Sub (clock demo_env (ticks demo_world)) 1699999990000000000 < MinUptimeBeforeShutdown \<and>
   (\<exists>w'. handleShutdown demo_env ''u1'' ''laptop-7'' demo_device_fresh demo_request demo_world
            = Some w' \<and> trace w' = [] \<and> registry w' = 0) \<and>
   (\<exists>w' m. handleShutdown_v2 demo_env ''u1'' ''laptop-7'' demo_device_fresh demo_request
            demo_world = Some w' \<and> trace w' = [Log m] \<and> registry w' = 0)"
proof -
  have a: "FirstOnlineAt demo_device_fresh = Some 1699999990000000000"
    by (simp add: demo_device_fresh_def demo_device_def Second_def)
  have b: "time_Sub (clock demo_env (ticks demo_world)) 1699999990000000000
             < MinUptimeBeforeShutdown"
    by (simp add: time_Sub_def demo_env_def demo_world_def Second_def Minute_def
        MinUptimeBeforeShutdown_def maxDuration_def minDuration_def)
  note t = recent_boot_skipped [where dev = demo_device_fresh and env = demo_env
      and req = demo_request and w = demo_world and u = "''u1''" and n = "''laptop-7''"]
  note v2 = t [THEN conjunct2, rule_format, OF a demo_guards(4) _ b]
  from t [THEN conjunct1] v2 a b demo_guards(1) demo_guards(4) show ?thesis
    by (simp add: demo_world_def)
qed

text \<open>
  C5 as stated fails: ten seconds after the device was first online, a pending request
  whose deadline has passed is still written as \<^verbatim>\<open>expired\<close>, in both revisions, because
  the deadline is checked before the uptime.
\<close>

theorem recent_boot_expired_request_written:
  "FirstOnlineAt demo_device_fresh = Some 1699999990000000000 \<and>
   time_Sub (clock demo_env 0) 1699999990000000000 < MinUptimeBeforeShutdown \<and>
   time_Sub (clock demo_env 1) 1699999990000000000 < MinUptimeBeforeShutdown \<and>
   map_option (outline \<circ> trace)
     (handleShutdown demo_env ''u1'' ''laptop-7'' demo_device_fresh demo_request_number
        demo_world)
     = Some [Http (patch_request demo_env ''u1'' ''laptop-7'' expired_payload)] \<and>
   map_option (outline \<circ> trace)
     (handleShutdown_v2 demo_env ''u1'' ''laptop-7'' demo_device_fresh demo_request_string
        demo_world)
     = Some [Http (patch_request demo_env ''u1'' ''laptop-7'' expired_payload)]"
proof -
  obtain w1 where h1: "handleShutdown demo_env ''u1'' ''laptop-7'' demo_device_fresh
      demo_request_number demo_world = Some w1"
    using handleShutdown_returns [OF patch_found_demo] by blast
  obtain w2 where h2: "handleShutdown_v2 demo_env ''u1'' ''laptop-7'' demo_device_fresh
      demo_request_string demo_world = Some w2"
    using handleShutdown_v2_returns [OF patch_found_demo] by blast
  obtain b3 w3 where t: "too_recent demo_env demo_device_fresh (demo_world\<lparr>ticks := 1\<rparr>) = (b3, w3)"
    by force
  have "outline (trace w1) = [Http (patch_request demo_env ''u1'' ''laptop-7'' expired_payload)]"
    using handleShutdown_outline [OF h1 demo_guards(3) t] by simp
  moreover
  have "outline (trace w2) = [Http (patch_request demo_env ''u1'' ''laptop-7'' expired_payload)]"
    using handleShutdown_v2_outline [OF h2 demo_guards(5) t] by simp
  ultimately show ?thesis
    using h1 h2
    by (simp add: demo_device_fresh_def demo_device_def time_Sub_def demo_env_def Second_def
        Minute_def MinUptimeBeforeShutdown_def maxDuration_def minDuration_def)
qed

lemma written_state_simps [simp]:
  "written_state (Http (patch_request env u n expired_payload)) = Some ''expired''"
  "written_state (Http (patch_request env u n done_payload)) = Some ''done''"
  "written_state (Http (patch_request env u n done_payload_v2)) = Some ''done''"
  "written_state (Http (patch_request env u n (failed_payload msg))) = Some ''failed''"
  "written_state (Http (patch_request env u n (shutting_down_payload now))) = Some ''shutting_down''"
  "written_state (Sleep d) = None"
  "written_state (AwaitTick d) = None"
  "written_state (Exec cmd) = None"
  "written_state (Log m) = None"
  by (simp_all add: written_state_def patch_request_def expired_payload_def done_payload_def
      done_payload_v2_def failed_payload_def shutting_down_payload_def as_string_def)

lemma written_state_status_payload [simp]:
  "written_state (Http (patch_request env u n
      [(''status'', a), (''last_seen'', b), (''first_online_at'', c)])) = None"
  by (simp add: written_state_def patch_request_def)

lemma handleShutdown_state_writes:
  assumes h: "handleShutdown env u n dev req w = Some w'"
      and d: "deadline_passed env req w = (b1, w1)"
      and t: "too_recent env dev w1 = (b2, w2)"
  shows "state_writes (since w w') =
           (if b1 then [''expired''] else if b2 then [] else [''done''])"
  using handleShutdown_outline [OF h d t]
  by (simp add: state_writes_def List.map_filter_simps)

lemma handleShutdown_v2_state_writes:
  assumes h: "handleShutdown_v2 env u n dev req w = Some w'"
      and d: "deadline_v2 env req w = (v, w1)"
      and t: "too_recent env dev w1 = (b2, w2)"
  shows "state_writes (since w w') =
           (case v of
              Inl err \<Rightarrow> []
            | Inr True \<Rightarrow> [''expired'']
            | Inr False \<Rightarrow>
                if b2 then []
                else (case shutdown_command (goos env) of
                        None \<Rightarrow> [''shutting_down'']
                      | Some cmd \<Rightarrow>
                          (case snd (run_command env cmd) of
                             Some msg \<Rightarrow> [''shutting_down'', ''failed'']
                           | None \<Rightarrow> [''shutting_down'', ''done''])))"
  using handleShutdown_v2_outline [OF h d t]
  by (simp add: state_writes_def List.map_filter_simps split: sum.splits bool.splits option.splits)




lemma demo_request_guards:
  "deadline_passed env demo_request w = (False, w)"
  "deadline_v2 env demo_request w = (Inr False, w)"
  "too_recent env demo_device w = (False, w)"
  by (simp_all add: deadline_passed_def deadline_v2_def too_recent_def as_float64_def
      as_string_def demo_request_def demo_device_def)

lemma patch_found_demo_host:
  "patch_found demo_env_freebsd" "patch_found demo_env_failing"
  by (auto simp: patch_found_def demo_env_freebsd_def demo_env_failing_def demo_env_def
      demo_serve_def split: http_method.splits)

lemma shutdown_command_supported:
  "(shutdown_command os \<noteq> None) = (os = ''windows'' \<or> os = ''linux'' \<or> os = ''darwin'')"
  by (simp add: shutdown_command_def)




text \<open>
  C4, as amended. In \<^verbatim>\<open>part_002\<close> the states that one run of the executor writes,
  starting from the pending request it was given, follow the listed transitions:
  nothing, \<^verbatim>\<open>expired\<close>, \<^verbatim>\<open>shutting_down\<close>, or \<^verbatim>\<open>shutting_down\<close> and then \<^verbatim>\<open>done\<close> or
  \<^verbatim>\<open>failed\<close>. In \<^verbatim>\<open>src/app.go\<close> the executor writes nothing, \<^verbatim>\<open>expired\<close>, or \<^verbatim>\<open>done\<close>
  straight from \<^verbatim>\<open>pending\<close>. The Status Reporter never writes the request. No write
  goes back to \<^verbatim>\<open>pending\<close>.
\<close>

theorem writes_follow_transitions:
  "(patch_found env \<longrightarrow>
      handleShutdown_v2 env u n dev req w \<noteq> None \<and> handleShutdown env u n dev req w \<noteq> None) \<and>
   (\<forall>w'. handleShutdown_v2 env u n dev req w = Some w' \<longrightarrow>
      follows_transitions ''pending'' (state_writes (since w w'))) \<and>
   (\<forall>w'. handleShutdown env u n dev req w = Some w' \<longrightarrow>
      state_writes (since w w') \<in> {[], [''expired''], [''done'']}) \<and>
   (\<forall>w'. updateDeviceStatus_pass env u n w = Some w' \<longrightarrow> state_writes (since w w') = []) \<and>
   (\<forall>r w'. updateDeviceStatus_pass_v2 env u n w = Some (r, w') \<longrightarrow>
      state_writes (since w w') = [])"
proof (intro conjI allI impI)
  assume f: "patch_found env"
  show "handleShutdown_v2 env u n dev req w \<noteq> None"
    using handleShutdown_v2_returns [OF f, of u n dev req w] by auto
  show "handleShutdown env u n dev req w \<noteq> None"
    using handleShutdown_returns [OF f, of u n dev req w] by auto
next
  fix w'
  assume h: "handleShutdown_v2 env u n dev req w = Some w'"
  obtain v w1 where d: "deadline_v2 env req w = (v, w1)" by force
  obtain b2 w2 where t: "too_recent env dev w1 = (b2, w2)" by force
  show "follows_transitions ''pending'' (state_writes (since w w'))"
    using handleShutdown_v2_state_writes [OF h d t]
    by (simp add: listed_transition_def split: sum.splits bool.splits option.splits)
next
  fix w'
  assume h: "handleShutdown env u n dev req w = Some w'"
  obtain b1 w1 where d: "deadline_passed env req w = (b1, w1)" by force
  obtain b2 w2 where t: "too_recent env dev w1 = (b2, w2)" by force
  show "state_writes (since w w') \<in> {[], [''expired''], [''done'']}"
    using handleShutdown_state_writes [OF h d t] by simp
next
  fix w'
  assume "updateDeviceStatus_pass env u n w = Some w'"
  from updateDeviceStatus_pass_outline [OF this]
  show "state_writes (since w w') = []"
    by (simp add: state_writes_def List.map_filter_simps)
next
  fix r w'
  assume "updateDeviceStatus_pass_v2 env u n w = Some (r, w')"
  from updateDeviceStatus_pass_v2_outline [OF this]
  show "state_writes (since w w') = []"
    by (simp add: state_writes_def List.map_filter_simps)
qed

theorem writes_follow_transitions_witness:
  "patch_found demo_env \<and>
   (\<exists>w'. handleShutdown_v2 demo_env ''u1'' ''laptop-7'' demo_device demo_request demo_world
            = Some w' \<and>
      state_writes (since demo_world w') = [''shutting_down'', ''done''] \<and>
      follows_transitions ''pending'' (state_writes (since demo_world w'))) \<and>
   (\<exists>w'. updateDeviceStatus_pass demo_env ''u1'' ''laptop-7'' demo_world = Some w' \<and>
      state_writes (since demo_world w') = [])"
proof -
  note t = writes_follow_transitions [where env = demo_env and req = demo_request
      and w = demo_world and dev = demo_device and u = "''u1''" and n = "''laptop-7''"]
  from t patch_found_demo obtain w2
    where w2: "handleShutdown_v2 demo_env ''u1'' ''laptop-7'' demo_device demo_request
        demo_world = Some w2"
    by (metis not_None_eq)
  obtain w3 where w3: "updateDeviceStatus_pass demo_env ''u1'' ''laptop-7'' demo_world = Some w3"
    using updateDeviceStatus_pass_returns(1) [OF patch_found_demo] by blast
  have c: "shutdown_command (goos demo_env) = Some [''systemctl'', ''poweroff'']"
    "run_command demo_env cmd = ([], None)" for cmd
    by (simp_all add: demo_env_def shutdown_command_def)
  have "state_writes (since demo_world w2) = [''shutting_down'', ''done'']"
    using handleShutdown_v2_state_writes [OF w2 demo_request_guards(2) demo_request_guards(3)] c
    by simp
  with t w2 w3 patch_found_demo show ?thesis
    by (metis (no_types, lifting))
qed

text \<open>
  C4 as stated fails on \<^verbatim>\<open>src/app.go\<close>: the committed request goes from \<^verbatim>\<open>pending\<close>
  straight to \<^verbatim>\<open>done\<close>, which is not a listed transition.
\<close>

theorem app_go_writes_done_from_pending:
  "map_option (state_writes \<circ> trace)
     (handleShutdown demo_env ''u1'' ''laptop-7'' demo_device demo_request demo_world)
     = Some [''done''] \<and>
   \<not> follows_transitions ''pending'' [''done'']"
proof -
  obtain w1 where h1: "handleShutdown demo_env ''u1'' ''laptop-7'' demo_device
      demo_request demo_world = Some w1"
    using handleShutdown_returns [OF patch_found_demo] by blast
  from handleShutdown_state_writes [OF h1 demo_request_guards(1) demo_request_guards(3)] h1
  show ?thesis
    by (simp add: listed_transition_def)
qed

lemma createDevice_result:
  "createDevice env u n w =
     (case serve env (registry w)
             (create_request env u n (clock env (ticks w)) (clock env (Suc (ticks w)))) of
        (Inl m, r') \<Rightarrow>
          (Some (Transport m),
           emit (Http (create_request env u n (clock env (ticks w)) (clock env (Suc (ticks w)))))
             (w\<lparr>ticks := Suc (Suc (ticks w)), registry := r'\<rparr>))
      | (Inr resp, r') \<Rightarrow>
          (if 300 \<le> StatusCode resp
           then Some (CreateStatus (StatusCode resp) (resp_body resp)) else None,
           emit (Http (create_request env u n (clock env (ticks w)) (clock env (Suc (ticks w)))))
             (w\<lparr>ticks := Suc (Suc (ticks w)), registry := r'\<rparr>)))"
  by (simp add: createDevice_def time_Now_def http_Do_def emit_def
      split: prod.splits sum.splits)

lemma createDevice_v2_absent:
  assumes "fetchDevices env u n w = (Inr [], w1)"
  shows "fst (createDevice_v2 env u n w) =
     (case fst (serve env (registry w1)
             (create_request_v2 env u n (format_rfc3339 env (clock env (ticks w1)))
                (format_rfc3339 env (clock env (Suc (ticks w1)))))) of
        Inl m \<Rightarrow> Some (Transport m)
      | Inr resp \<Rightarrow>
          if 300 \<le> StatusCode resp
          then Some (CreateStatus (StatusCode resp) (resp_body resp)) else None)"
  using assms
  by (simp add: createDevice_v2_def time_Now_def http_Do_def emit_def
      split: prod.splits sum.splits)

text \<open>
  C7, as amended. \<^verbatim>\<open>createDevice\<close> returns nil exactly when the registry answers the
  POST with a status below 300; \<^verbatim>\<open>part_002\<close> also returns nil, without a POST, when its
  own fetch already finds a row, and returns the fetch error when that fetch fails.
  \<^verbatim>\<open>src/app.go\<close> asks the registry to merge a duplicate row (header
  \<^verbatim>\<open>Prefer: resolution=merge-duplicates\<close>). A response with status 300 or more, 409
  Conflict included, comes back as an error in both revisions.
\<close>

theorem createDevice_succeeds_iff_accepted:
  "((fst (createDevice env u n w) = None) =
      (\<exists>resp r'. serve env (registry w)
           (create_request env u n (clock env (ticks w)) (clock env (Suc (ticks w))))
             = (Inr resp, r') \<and> StatusCode resp < 300)) \<and>
   (\<forall>resp r'. serve env (registry w)
           (create_request env u n (clock env (ticks w)) (clock env (Suc (ticks w))))
             = (Inr resp, r') \<longrightarrow> 300 \<le> StatusCode resp \<longrightarrow>
        fst (createDevice env u n w) = Some (CreateStatus (StatusCode resp) (resp_body resp))) \<and>
   map_of (Header (create_request env u n t1 t2)) ''Prefer'' = Some ''resolution=merge-duplicates'' \<and>
   (\<forall>d ds w1. fetchDevices env u n w = (Inr (d # ds), w1) \<longrightarrow>
        createDevice_v2 env u n w = (None, w1)) \<and>
   (\<forall>err w1. fetchDevices env u n w = (Inl err, w1) \<longrightarrow>
        createDevice_v2 env u n w = (Some (CheckExisting err), w1)) \<and>
   (\<forall>w1. fetchDevices env u n w = (Inr [], w1) \<longrightarrow>
        (fst (createDevice_v2 env u n w) = None) =
          (\<exists>resp r'. serve env (registry w1)
             (create_request_v2 env u n (format_rfc3339 env (clock env (ticks w1)))
                (format_rfc3339 env (clock env (Suc (ticks w1)))))
             = (Inr resp, r') \<and> StatusCode resp < 300)) \<and>
   (\<forall>w1 resp r'. fetchDevices env u n w = (Inr [], w1) \<longrightarrow>
        serve env (registry w1)
             (create_request_v2 env u n (format_rfc3339 env (clock env (ticks w1)))
                (format_rfc3339 env (clock env (Suc (ticks w1)))))
             = (Inr resp, r') \<longrightarrow> 300 \<le> StatusCode resp \<longrightarrow>
        fst (createDevice_v2 env u n w)
          = Some (CreateStatus (StatusCode resp) (resp_body resp)))"
proof (intro conjI allI impI)
  show "(fst (createDevice env u n w) = None) =
      (\<exists>resp r'. serve env (registry w)
           (create_request env u n (clock env (ticks w)) (clock env (Suc (ticks w))))
             = (Inr resp, r') \<and> StatusCode resp < 300)"
    by (auto simp: createDevice_result split: prod.splits sum.splits)
next
  fix resp r'
  assume "serve env (registry w)
           (create_request env u n (clock env (ticks w)) (clock env (Suc (ticks w))))
             = (Inr resp, r')" and "300 \<le> StatusCode resp"
  then show "fst (createDevice env u n w)
      = Some (CreateStatus (StatusCode resp) (resp_body resp))"
    by (simp add: createDevice_result)
next
  show "map_of (Header (create_request env u n t1 t2)) ''Prefer''
      = Some ''resolution=merge-duplicates''"
    by (simp add: create_request_def)
next
  fix d ds w1
  assume "fetchDevices env u n w = (Inr (d # ds), w1)"
  then show "createDevice_v2 env u n w = (None, w1)"
    by (simp add: createDevice_v2_def)
next
  fix err w1
  assume "fetchDevices env u n w = (Inl err, w1)"
  then show "createDevice_v2 env u n w = (Some (CheckExisting err), w1)"
    by (simp add: createDevice_v2_def)
next
  fix w1
  assume "fetchDevices env u n w = (Inr [], w1)"
  from createDevice_v2_absent [OF this]
  show "(fst (createDevice_v2 env u n w) = None) =
          (\<exists>resp r'. serve env (registry w1)
             (create_request_v2 env u n (format_rfc3339 env (clock env (ticks w1)))
                (format_rfc3339 env (clock env (Suc (ticks w1)))))
             = (Inr resp, r') \<and> StatusCode resp < 300)"
    by (cases "serve env (registry w1)
             (create_request_v2 env u n (format_rfc3339 env (clock env (ticks w1)))
                (format_rfc3339 env (clock env (Suc (ticks w1)))))")
       (auto split: sum.splits)
next
  fix w1 resp r'
  assume "fetchDevices env u n w = (Inr [], w1)"
    and "serve env (registry w1)
             (create_request_v2 env u n (format_rfc3339 env (clock env (ticks w1)))
                (format_rfc3339 env (clock env (Suc (ticks w1)))))
             = (Inr resp, r')" and "300 \<le> StatusCode resp"
  then show "fst (createDevice_v2 env u n w)
          = Some (CreateStatus (StatusCode resp) (resp_body resp))"
    using createDevice_v2_absent [of env u n w w1] by simp
qed

theorem createDevice_succeeds_iff_accepted_witness:
  "serve demo_env (registry demo_world)
      (create_request demo_env ''u1'' ''laptop-7'' (clock demo_env (ticks demo_world))
         (clock demo_env (Suc (ticks demo_world))))
     = (Inr \<lparr>StatusCode = 201, resp_body = []\<rparr>, 1) \<and>
   fst (createDevice demo_env ''u1'' ''laptop-7'' demo_world) = None \<and>
   serve demo_env_conflict (registry demo_world)
      (create_request demo_env_conflict ''u1'' ''laptop-7''
         (clock demo_env_conflict (ticks demo_world))
         (clock demo_env_conflict (Suc (ticks demo_world))))
     = (Inr \<lparr>StatusCode = 409, resp_body = []\<rparr>, 1) \<and>
   fst (createDevice demo_env_conflict ''u1'' ''laptop-7'' demo_world)
     = Some (CreateStatus 409 [])"
proof -
  have a: "serve demo_env (registry demo_world)
      (create_request demo_env ''u1'' ''laptop-7'' (clock demo_env (ticks demo_world))
         (clock demo_env (Suc (ticks demo_world))))
     = (Inr \<lparr>StatusCode = 201, resp_body = []\<rparr>, 1)"
    by (simp add: demo_env_def demo_serve_def demo_world_def create_request_def)
  have b: "serve demo_env_conflict (registry demo_world)
      (create_request demo_env_conflict ''u1'' ''laptop-7''
         (clock demo_env_conflict (ticks demo_world))
         (clock demo_env_conflict (Suc (ticks demo_world))))
     = (Inr \<lparr>StatusCode = 409, resp_body = []\<rparr>, 1)"
    by (simp add: demo_env_conflict_def demo_env_def demo_serve_def demo_world_def
        create_request_def)
  note t1 = createDevice_succeeds_iff_accepted [where env = demo_env and w = demo_world
      and u = "''u1''" and n = "''laptop-7''"]
  note t2 = createDevice_succeeds_iff_accepted [where env = demo_env_conflict
      and w = demo_world and u = "''u1''" and n = "''laptop-7''"]
  from t1 [THEN conjunct1] a
  have 1: "fst (createDevice demo_env ''u1'' ''laptop-7'' demo_world) = None"
    by simp
  from t2 [THEN conjunct2, THEN conjunct1, rule_format, OF b]
  have 2: "fst (createDevice demo_env_conflict ''u1'' ''laptop-7'' demo_world)
     = Some (CreateStatus 409 [])"
    by simp
  from a b 1 2 show ?thesis by blast
qed

text \<open>
  C7 as stated fails: a 409 Conflict answer to the POST makes \<^verbatim>\<open>createDevice\<close> return
  an error in \<^verbatim>\<open>src/app.go\<close>, and in \<^verbatim>\<open>part_002\<close> too when the row appeared after its
  fetch had found none.
\<close>

theorem conflict_on_create_is_an_error:
  "fst (createDevice demo_env_conflict ''u1'' ''laptop-7'' demo_world)
     = Some (CreateStatus 409 []) \<and>
   fst (fetchDevices demo_env_conflict ''u1'' ''laptop-7'' demo_world) = Inr [] \<and>
   fst (createDevice_v2 demo_env_conflict ''u1'' ''laptop-7'' demo_world)
     = Some (CreateStatus 409 [])"
  by (simp add: createDevice_def createDevice_v2_def fetchDevices_def http_Do_def time_Now_def
      emit_def demo_env_conflict_def demo_env_def demo_serve_def demo_world_def
      create_request_def create_request_v2_def fetch_request_def)

lemma patch_never_foundD:
  assumes "patch_never_found env"
  obtains resp w1 where "http_Do env (patch_request env u n d) w = (Inr resp, w1)"
    and "StatusCode resp = 404"
proof -
  from assms obtain resp r'
    where "serve env (registry w) (patch_request env u n d) = (Inr resp, r')"
      and "StatusCode resp = 404"
    unfolding patch_never_found_def by (metis Method_requests(1))
  then show ?thesis
    using that by (simp add: http_Do_def)
qed

lemma recovery_succeedsD:
  assumes "recovery_succeeds env u n" and "fetchDevices env u n w = (res, w1)"
    and "length (case res of Inl _ \<Rightarrow> [] | Inr devices \<Rightarrow> devices) = 0"
  shows "\<exists>w2. createDevice env u n w1 = (None, w2)"
proof -
  from assms(1) have "case fetchDevices env u n w of
             (Inr (d # ds), w1) \<Rightarrow> True
           | (_, w1) \<Rightarrow> fst (createDevice env u n w1) = None"
    unfolding recovery_succeeds_def by (rule spec)
  with assms(2,3) have "fst (createDevice env u n w1) = None"
    by (auto split: sum.splits list.splits)
  then show ?thesis
    by (cases "createDevice env u n w1") simp
qed

lemma recovery_succeeds_v2D:
  assumes "recovery_succeeds_v2 env u n" and "fetchDevices env u n w = (res, w1)"
    and "length (case res of Inl _ \<Rightarrow> [] | Inr devices \<Rightarrow> devices) = 0"
  shows "\<exists>w2. createDevice_v2 env u n w1 = (None, w2)"
proof -
  from assms(1) have "case fetchDevices env u n w of
             (Inr (d # ds), w1) \<Rightarrow> True
           | (_, w1) \<Rightarrow> fst (createDevice_v2 env u n w1) = None"
    unfolding recovery_succeeds_v2_def by (rule spec)
  with assms(2,3) have "fst (createDevice_v2 env u n w1) = None"
    by (auto split: sum.splits list.splits)
  then show ?thesis
    by (cases "createDevice_v2 env u n w1") simp
qed

lemma patchDevice_returns_only_if:
  "patchDevice env u n d w = Some w' \<Longrightarrow>
     \<not> (patch_never_found env \<and> recovery_succeeds env u n)"
proof (induction rule: patchDevice.raw_induct [rotated 1, consumes 1, case_names step])
  case (step f env u n d w w')
  show ?case
  proof
    assume a: "patch_never_found env \<and> recovery_succeeds env u n"
    then obtain resp w1 where h: "http_Do env (patch_request env u n d) w = (Inr resp, w1)"
      and nf: "StatusCode resp = 404"
      using patch_never_foundD by blast
    obtain res w2 where g: "fetchDevices env u n w1 = (res, w2)"
      by force
    show False
    proof (cases "length (case res of Inl _ \<Rightarrow> [] | Inr devices \<Rightarrow> devices) = 0")
      case True
      with a g obtain w3 where "createDevice env u n w2 = (None, w3)"
        using recovery_succeedsD by blast
      with True h nf g step.hyps have "f env u n d w3 = Some w'"
        by simp
      from step.IH [OF this] a show False by simp
    next
      case False
      with h nf g step.hyps have "f env u n d w2 = Some w'"
        by simp
      from step.IH [OF this] a show False by simp
    qed
  qed
qed

lemma patchDevice_v2_returns_only_if:
  "patchDevice_v2 env u n d w = Some y \<Longrightarrow>
     \<not> (patch_never_found env \<and> recovery_succeeds_v2 env u n)"
proof (induction rule: patchDevice_v2.raw_induct [rotated 1, consumes 1, case_names step])
  case (step f env u n d w y)
  show ?case
  proof
    assume a: "patch_never_found env \<and> recovery_succeeds_v2 env u n"
    then obtain resp w1 where h: "http_Do env (patch_request env u n d) w = (Inr resp, w1)"
      and nf: "StatusCode resp = 404"
      using patch_never_foundD by blast
    obtain res w2 where g: "fetchDevices env u n w1 = (res, w2)"
      by force
    show False
    proof (cases "length (case res of Inl _ \<Rightarrow> [] | Inr devices \<Rightarrow> devices) = 0")
      case True
      with a g obtain w3 where "createDevice_v2 env u n w2 = (None, w3)"
        using recovery_succeeds_v2D by blast
      with True h nf g step.hyps obtain y0 where "f env u n d w3 = Some y0"
        by (auto simp: bind_eq_Some_conv)
      from step.IH [OF this] a show False by simp
    next
      case False
      with h nf g step.hyps obtain y0 where "f env u n d w2 = Some y0"
        by (auto simp: bind_eq_Some_conv)
      from step.IH [OF this] a show False by simp
    qed
  qed
qed

lemma patchDevice_gives_up:
  assumes "http_Do env (patch_request env u n d) w = (Inr resp, w1)"
    and "StatusCode resp = 404"
    and "fetchDevices env u n w1 = (res, w2)"
    and "length (case res of Inl _ \<Rightarrow> [] | Inr devices \<Rightarrow> devices) = 0"
  shows "createDevice env u n w2 = (Some err, w3) \<Longrightarrow>
           patchDevice env u n d w = Some (emit (Log (LogCreateDevice err)) w3)"
    and "createDevice_v2 env u n w2 = (Some err, w3) \<Longrightarrow>
           patchDevice_v2 env u n d w = Some (Some err, emit (Log (LogCreateDevice err)) w3)"
  using assms
  by (subst patchDevice.simps patchDevice_v2.simps, simp)+

lemma demo_404:
  "patch_never_found demo_env_404"
  "recovery_succeeds demo_env_404 u n"
  "recovery_succeeds_v2 demo_env_404 u n"
  "patch_never_found demo_env_refused"
  by (simp_all add: patch_never_found_def recovery_succeeds_def recovery_succeeds_v2_def
      demo_env_404_def demo_env_refused_def demo_env_def demo_serve_def fetchDevices_def
      createDevice_def createDevice_v2_def http_Do_def time_Now_def emit_def
      fetch_request_def create_request_def create_request_v2_def)

text \<open>
  C10, as amended. When the registry answers every PATCH with 404 and the recovery gets
  through each time (the fetch finds a row, or the create returns nil), \<^verbatim>\<open>patchDevice\<close>
  calls itself again without bound and never returns, in both revisions. When the
  fetch finds no row and the create fails, it returns after that one round.
\<close>

theorem patchDevice_never_returns:
  "(patch_never_found env \<longrightarrow> recovery_succeeds env u n \<longrightarrow>
      patchDevice env u n d w = None) \<and>
   (patch_never_found env \<longrightarrow> recovery_succeeds_v2 env u n \<longrightarrow>
      patchDevice_v2 env u n d w = None) \<and>
   (\<forall>resp w1 res w2 err w3.
      http_Do env (patch_request env u n d) w = (Inr resp, w1) \<longrightarrow> StatusCode resp = 404 \<longrightarrow>
      fetchDevices env u n w1 = (res, w2) \<longrightarrow>
      length (case res of Inl _ \<Rightarrow> [] | Inr devices \<Rightarrow> devices) = 0 \<longrightarrow>
      (createDevice env u n w2 = (Some err, w3) \<longrightarrow>
         patchDevice env u n d w = Some (emit (Log (LogCreateDevice err)) w3)) \<and>
      (createDevice_v2 env u n w2 = (Some err, w3) \<longrightarrow>
         patchDevice_v2 env u n d w = Some (Some err, emit (Log (LogCreateDevice err)) w3)))"
proof (intro conjI allI impI)
  assume "patch_never_found env" and "recovery_succeeds env u n"
  then show "patchDevice env u n d w = None"
    using patchDevice_returns_only_if [of env u n d w] by (cases "patchDevice env u n d w") auto
next
  assume "patch_never_found env" and "recovery_succeeds_v2 env u n"
  then show "patchDevice_v2 env u n d w = None"
    using patchDevice_v2_returns_only_if [of env u n d w]
    by (cases "patchDevice_v2 env u n d w") auto
next
  fix resp w1 res w2 err w3
  assume a: "http_Do env (patch_request env u n d) w = (Inr resp, w1)" "StatusCode resp = 404"
    "fetchDevices env u n w1 = (res, w2)"
    "length (case res of Inl _ \<Rightarrow> [] | Inr devices \<Rightarrow> devices) = 0"
  show "patchDevice env u n d w = Some (emit (Log (LogCreateDevice err)) w3)"
    if "createDevice env u n w2 = (Some err, w3)"
    using patchDevice_gives_up(1) [OF a that] .
  show "patchDevice_v2 env u n d w = Some (Some err, emit (Log (LogCreateDevice err)) w3)"
    if "createDevice_v2 env u n w2 = (Some err, w3)"
    using patchDevice_gives_up(2) [OF a that] .
qed

theorem patchDevice_never_returns_witness:
  "patch_never_found demo_env_404 \<and>
   recovery_succeeds demo_env_404 ''u1'' ''laptop-7'' \<and>
   recovery_succeeds_v2 demo_env_404 ''u1'' ''laptop-7'' \<and>
   patchDevice demo_env_404 ''u1'' ''laptop-7'' expired_payload demo_world = None \<and>
   patchDevice_v2 demo_env_404 ''u1'' ''laptop-7'' expired_payload demo_world = None"
  using patchDevice_never_returns [where env = demo_env_404 and u = "''u1''"
      and n = "''laptop-7''" and d = expired_payload and w = demo_world]
    demo_404(1) demo_404(2) [of "''u1''" "''laptop-7''"] demo_404(3) [of "''u1''" "''laptop-7''"]
  by simp

text \<open>
  C10 as stated fails: this registry answers every PATCH with 404, finds no row and
  refuses the POST with 500, and \<^verbatim>\<open>patchDevice\<close> returns after one PATCH, one GET and
  one POST (\<^verbatim>\<open>part_002\<close>: after one PATCH, two GETs and one POST).
\<close>

theorem patchDevice_returns_when_create_refused:
  "patch_never_found demo_env_refused \<and>
   map_option trace
     (patchDevice demo_env_refused ''u1'' ''laptop-7'' expired_payload demo_world)
     = Some [Http (patch_request demo_env_refused ''u1'' ''laptop-7'' expired_payload),
             Http (fetch_request demo_env_refused ''u1'' ''laptop-7''),
             Http (create_request demo_env_refused ''u1'' ''laptop-7''
                     1700000000000000000 1700000000000000001),
             Log (LogCreateDevice (CreateStatus 500 []))] \<and>
   map_option (trace \<circ> snd)
     (patchDevice_v2 demo_env_refused ''u1'' ''laptop-7'' expired_payload demo_world)
     = Some [Http (patch_request demo_env_refused ''u1'' ''laptop-7'' expired_payload),
             Http (fetch_request demo_env_refused ''u1'' ''laptop-7''),
             Http (fetch_request demo_env_refused ''u1'' ''laptop-7''),
             Http (create_request_v2 demo_env_refused ''u1'' ''laptop-7''
                     ''2023-11-14T22:13:20Z'' ''2023-11-14T22:13:20Z''),
             Log (LogCreateDevice (CreateStatus 500 []))]"
proof -
  have s: "serve demo_env_refused = demo_serve 500 404"
    "decode_devices demo_env_refused = (\<lambda>s. Inr [])"
    "clock demo_env_refused = (\<lambda>k. 1700000000 * Second + int k)"
    "format_rfc3339 demo_env_refused = (\<lambda>t. ''2023-11-14T22:13:20Z'')"
    by (simp_all add: demo_env_refused_def demo_env_def)
  have 1: "patchDevice demo_env_refused ''u1'' ''laptop-7'' expired_payload demo_world
     = Some \<lparr>registry = 3, ticks = 2,
             trace = [Http (patch_request demo_env_refused ''u1'' ''laptop-7'' expired_payload),
               Http (fetch_request demo_env_refused ''u1'' ''laptop-7''),
               Http (create_request demo_env_refused ''u1'' ''laptop-7''
                     1700000000000000000 1700000000000000001),
               Log (LogCreateDevice (CreateStatus 500 []))]\<rparr>"
    by (subst patchDevice.simps)
       (simp add: s http_Do_def fetchDevices_def createDevice_def time_Now_def emit_def
          demo_serve_def demo_world_def Second_def numeral_3_eq_3)
  have 2: "patchDevice_v2 demo_env_refused ''u1'' ''laptop-7'' expired_payload demo_world
     = Some (Some (CreateStatus 500 []),
         \<lparr>registry = 4, ticks = 2,
             trace = [Http (patch_request demo_env_refused ''u1'' ''laptop-7'' expired_payload),
               Http (fetch_request demo_env_refused ''u1'' ''laptop-7''),
               Http (fetch_request demo_env_refused ''u1'' ''laptop-7''),
               Http (create_request_v2 demo_env_refused ''u1'' ''laptop-7''
                     ''2023-11-14T22:13:20Z'' ''2023-11-14T22:13:20Z''),
               Log (LogCreateDevice (CreateStatus 500 []))]\<rparr>)"
    by (subst patchDevice_v2.simps)
       (simp add: s http_Do_def fetchDevices_def createDevice_v2_def time_Now_def emit_def
          demo_serve_def demo_world_def Second_def eval_nat_numeral)
  from 1 2 demo_404(4) show ?thesis by simp
qed

lemma extends_emit: "extends w w1 \<Longrightarrow> extends w (emit e w1)"
  by (auto simp: extends_def)

lemma extends_refl: "extends w w"
  by (simp add: extends_def)

lemma extends_after_emit: "extends (emit e w) w' \<Longrightarrow> extends w w'"
  by (auto simp: extends_def)

lemma extends_frame: "trace w1 = trace w \<Longrightarrow> extends w1 w' \<Longrightarrow> extends w w'"
  by (simp add: extends_def)

lemma extends_trans: "extends w w1 \<Longrightarrow> extends w1 w2 \<Longrightarrow> extends w w2"
  by (auto simp: extends_def)

lemma patchDevice_extends: "patchDevice env u n d w = Some w' \<Longrightarrow> extends w w'"
  using patchDevice_visible [of env u n d w w'] by (auto simp: extends_def)

lemma patchDevice_v2_extends: "patchDevice_v2 env u n d w = Some (r, w') \<Longrightarrow> extends w w'"
  using patchDevice_v2_visible [of env u n d w "(r, w')"] by (auto simp: extends_def)

lemma handleShutdown_extends:
  assumes "handleShutdown env u n dev req w = Some w'"
  shows "extends w w'"
proof -
  obtain b1 w1 where d: "deadline_passed env req w = (b1, w1)" by force
  obtain b2 w2 where t: "too_recent env dev w1 = (b2, w2)" by force
  have tw: "trace w1 = trace w" "trace w2 = trace w"
    using deadline_passed_frame [OF d] too_recent_frame [OF t] by simp_all
  show ?thesis
  proof (cases b1)
    case True
    with assms d have "patchDevice env u n expired_payload w1 = Some w'"
      by (simp add: handleShutdown_def)
    then show ?thesis
      using extends_frame [OF tw(1)] patchDevice_extends by blast
  next
    case False
    show ?thesis
    proof (cases b2)
      case True
      with assms d t False have "w' = w2" by (simp add: handleShutdown_def)
      with tw show ?thesis by (simp add: extends_def)
    next
      case nb2: False
      with assms d t False obtain w3 where p: "patchDevice env u n done_payload w2 = Some w3"
        and w': "w' = emit (Exec [''shutdown'', ''now''])
                   (emit (Sleep ShutdownDelay) (emit (Log LogShuttingDown) w3))"
        by (auto simp: handleShutdown_def split: option.splits)
      from patchDevice_extends [OF p] have "extends w2 w'"
        unfolding w' by (intro extends_emit)
      then show ?thesis
        using extends_frame [OF tw(2)] by blast
    qed
  qed
qed

lemma execute_v2_extends:
  assumes "execute_v2 env u n w = Some w'"
  shows "extends w w'"
proof -
  let ?w1 = "(emit (Log LogShuttingDown) w)\<lparr>ticks := Suc (ticks w)\<rparr>"
  from assms obtain r1 w2 where p1: "patchDevice_v2 env u n
         (shutting_down_payload (format_rfc3339 env (clock env (ticks w)))) ?w1 = Some (r1, w2)"
    by (auto simp: execute_v2_def time_Now_def emit_def split: option.splits)
  have "extends w ?w1"
    by (simp add: extends_def emit_def)
  with patchDevice_v2_extends [OF p1] have e2: "extends w w2"
    using extends_trans by blast
  show ?thesis
  proof (cases "shutdown_command (goos env)")
    case None
    with assms p1 have "w' = emit (Log (LogUnsupportedOS (goos env))) (emit (Sleep ShutdownDelay) w2)"
      by (auto simp: execute_v2_def time_Now_def emit_def split: option.splits)
    with e2 show ?thesis by (simp add: extends_emit)
  next
    case (Some cmd)
    obtain out res where rc: "run_command env cmd = (out, res)" by force
    show ?thesis
    proof (cases res)
      case None
      with assms p1 Some rc obtain r2 w4
        where p2: "patchDevice_v2 env u n done_payload_v2
                     (emit (Exec cmd) (emit (Sleep ShutdownDelay) w2)) = Some (r2, w4)"
          and w': "w' = emit (Log LogCommandOk) w4"
        by (auto simp: execute_v2_def time_Now_def emit_def split: option.splits)
      have "extends w (emit (Exec cmd) (emit (Sleep ShutdownDelay) w2))"
        using e2 by (intro extends_emit)
      with patchDevice_v2_extends [OF p2] have "extends w w4"
        using extends_trans by blast
      then show ?thesis by (simp add: w' extends_emit)
    next
      case failed: (Some msg)
      with assms p1 Some rc obtain r2
        where p2: "patchDevice_v2 env u n (failed_payload msg)
                     (emit (Log (LogCommandFailed (Command msg) out))
                        (emit (Exec cmd) (emit (Sleep ShutdownDelay) w2))) = Some (r2, w')"
        by (auto simp: execute_v2_def time_Now_def emit_def split: option.splits)
      have "extends w (emit (Log (LogCommandFailed (Command msg) out))
                        (emit (Exec cmd) (emit (Sleep ShutdownDelay) w2)))"
        using e2 by (intro extends_emit)
      with patchDevice_v2_extends [OF p2] show ?thesis
        using extends_trans by blast
    qed
  qed
qed

lemma handleShutdown_v2_extends:
  assumes "handleShutdown_v2 env u n dev req w = Some w'"
  shows "extends w w'"
proof -
  obtain v w1 where d: "deadline_v2 env req w = (v, w1)" by force
  obtain b2 w2 where t: "too_recent env dev w1 = (b2, w2)" by force
  have tw: "trace w1 = trace w" "trace w2 = trace w"
    using deadline_v2_frame [OF d] too_recent_frame [OF t] by simp_all
  show ?thesis
  proof (cases v)
    case (Inl err)
    with assms d have "w' = emit (Log (LogExpiresParse err)) w1"
      by (simp add: handleShutdown_v2_def)
    with tw show ?thesis by (simp add: extends_def)
  next
    case (Inr b1)
    show ?thesis
    proof (cases b1)
      case True
      with assms d Inr obtain r where "patchDevice_v2 env u n expired_payload w1 = Some (r, w')"
        by (auto simp: handleShutdown_v2_def split: option.splits)
      then show ?thesis
        using extends_frame [OF tw(1)] patchDevice_v2_extends by blast
    next
      case False
      show ?thesis
      proof (cases b2)
        case True
        with assms d t False Inr have "w' = emit (Log (LogTooRecent n)) w2"
          by (simp add: handleShutdown_v2_def)
        with tw show ?thesis by (simp add: extends_def)
      next
        case nb2: False
        with assms d t False Inr have "execute_v2 env u n w2 = Some w'"
          by (simp add: handleShutdown_v2_def)
        then show ?thesis
          using extends_frame [OF tw(2)] execute_v2_extends by blast
      qed
    qed
  qed
qed

lemma createDevice_extends:
  "createDevice env u n w = (res, w') \<Longrightarrow> extends w w'"
  "createDevice_v2 env u n w = (res, w') \<Longrightarrow> extends w w'"
  using createDevice_trace [of env u n w res w'] createDevice_v2_trace [of env u n w res w']
  by (auto simp: extends_def)

lemma listen_pass_fetches_first:
  assumes "listen_pass env u n w = Some w'"
  shows "\<exists>evs. trace w' = trace w @ Http (fetch_request env u n) # evs"
proof -
  obtain res w1 where f: "fetchDevices env u n w = (res, w1)" by force
  have t: "trace w1 = trace w @ [Http (fetch_request env u n)]"
    using fetchDevices_trace [OF f] .
  have "extends w1 w'"
    using assms f
    by (auto simp: listen_pass_def extends_emit extends_refl
        split: sum.splits list.splits option.splits prod.splits if_splits
        dest!: createDevice_extends(1) handleShutdown_extends extends_after_emit)
  with t show ?thesis
    by (auto simp: extends_def)
qed

lemma listen_pass_v2_fetches_first:
  assumes "listen_pass_v2 env u n w = Some w'"
  shows "\<exists>evs. trace w' = trace w @ Http (fetch_request env u n) # evs"
proof -
  obtain res w1 where f: "fetchDevices env u n w = (res, w1)" by force
  have t: "trace w1 = trace w @ [Http (fetch_request env u n)]"
    using fetchDevices_trace [OF f] .
  have "extends w1 w'"
    using assms f
    by (auto simp: listen_pass_v2_def extends_emit extends_refl
        split: sum.splits list.splits option.splits prod.splits if_splits
        dest!: createDevice_extends(2) handleShutdown_v2_extends extends_after_emit)
  with t show ?thesis
    by (auto simp: extends_def)
qed



end
